theory Spec2Isabelle
  imports Complex_Main
begin

section \<open>JavaScript values\<close>

text \<open>
  The server \<^verbatim>\<open>src/public/server.js\<close> handles JSON request bodies and the
  objects that the CRM client and the completion client resolve with or reject with.
  All of them are modelled by one datatype of JavaScript values. An object is the list
  of its own properties in insertion order; a property read takes the first entry of a
  name. A finite number is the real number it denotes; the other numbers
  (\<^verbatim>\<open>NaN\<close>, the two infinities and the negative zero) are values of their own.
  Strings are byte strings.
\<close>

datatype jsval =
    JUndefined
  | JNull
  | JBool bool
  | JNum real
  | JNaN
  | JInfinity
  | JNegInfinity
  | JNegZero
  | JStr string
  | JArr "jsval list"
  | JObj "(string \<times> jsval) list"

text \<open>\<^verbatim>\<open>!v\<close> is false exactly on the truthy values.\<close>

fun truthy :: "jsval \<Rightarrow> bool" where
  "truthy JUndefined = False"
| "truthy JNull = False"
| "truthy (JBool b) = b"
| "truthy (JNum x) = (x \<noteq> 0)"
| "truthy JNaN = False"
| "truthy JInfinity = True"
| "truthy JNegInfinity = True"
| "truthy JNegZero = False"
| "truthy (JStr s) = (s \<noteq> [])"
| "truthy (JArr xs) = True"
| "truthy (JObj kvs) = True"

fun nullish :: "jsval \<Rightarrow> bool" where
  "nullish JUndefined = True"
| "nullish JNull = True"
| "nullish v = False"

text \<open>\<^verbatim>\<open>a || b\<close> on values.\<close>

definition js_or :: "jsval \<Rightarrow> jsval \<Rightarrow> jsval" where
  "js_or a b = (if truthy a then a else b)"

text \<open>
  Reading a named property of a value that is neither \<^verbatim>\<open>undefined\<close> nor
  \<^verbatim>\<open>null\<close>. The names the server reads (\<^verbatim>\<open>id\<close>, \<^verbatim>\<open>properties\<close>,
  \<^verbatim>\<open>body\<close>, \<^verbatim>\<open>results\<close>, \<^verbatim>\<open>toObjectId\<close>, \<^verbatim>\<open>email\<close>,
  \<^verbatim>\<open>dealname\<close>, \<^verbatim>\<open>dealProperties\<close>, \<^verbatim>\<open>contactId\<close>,
  \<^verbatim>\<open>response\<close>, \<^verbatim>\<open>message\<close>, \<^verbatim>\<open>statusCode\<close>, \<^verbatim>\<open>choices\<close>,
  \<^verbatim>\<open>content\<close>) are no properties of a primitive or of an array, so the read gives
  \<^verbatim>\<open>undefined\<close> there.
\<close>

fun own_prop :: "jsval \<Rightarrow> string \<Rightarrow> jsval" where
  "own_prop (JObj kvs) k = (case map_of kvs k of Some v \<Rightarrow> v | None \<Rightarrow> JUndefined)"
| "own_prop v k = JUndefined"

text \<open>
  The \<^verbatim>\<open>TypeError\<close> the engine throws for a property read of \<^verbatim>\<open>undefined\<close>
  or \<^verbatim>\<open>null\<close>, as the object the \<^verbatim>\<open>catch\<close> block sees it: only its
  \<^verbatim>\<open>message\<close> is ever read.
\<close>

definition type_error :: "string \<Rightarrow> jsval" where
  "type_error msg = JObj [(''message'', JStr msg)]"

definition cannot_read :: "jsval \<Rightarrow> string \<Rightarrow> jsval" where
  "cannot_read v k =
     type_error (''Cannot read properties of ''
       @ (if v = JNull then ''null'' else ''undefined'')
       @ '' (reading '' @ [CHR 0x27] @ k @ [CHR 0x27] @ '')'')"

text \<open>\<^verbatim>\<open>v.k\<close>: throws on \<^verbatim>\<open>undefined\<close> and \<^verbatim>\<open>null\<close> (\<open>Inl\<close> is the thrown value).\<close>

definition get_prop :: "jsval \<Rightarrow> string \<Rightarrow> jsval + jsval" where
  "get_prop v k = (if nullish v then Inl (cannot_read v k) else Inr (own_prop v k))"

text \<open>\<^verbatim>\<open>v?.k\<close>: \<^verbatim>\<open>undefined\<close> on \<^verbatim>\<open>undefined\<close> and \<^verbatim>\<open>null\<close>, never throws.\<close>

definition opt_get :: "jsval \<Rightarrow> string \<Rightarrow> jsval" where
  "opt_get v k = (if nullish v then JUndefined else own_prop v k)"

text \<open>\<^verbatim>\<open>Array.isArray\<close>.\<close>

fun isArray :: "jsval \<Rightarrow> bool" where
  "isArray (JArr xs) = True"
| "isArray v = False"

fun elems :: "jsval \<Rightarrow> jsval list" where
  "elems (JArr xs) = xs"
| "elems v = []"

section \<open>The response normalizers\<close>

text \<open>
  \<^verbatim>\<open>extractListResults\<close> (server.js, lines 73 to 82). Every property read in it is
  guarded, so it is written with the reads that can throw, and returns \<open>Inr\<close> of the
  list when it returns.
\<close>

definition extractListResults :: "jsval \<Rightarrow> jsval + jsval list" where
  "extractListResults apiResponse =
     (if \<not> truthy apiResponse then Inr []
      else case get_prop apiResponse ''results'' of
        Inl e \<Rightarrow> Inl e
      | Inr results \<Rightarrow>
          if isArray results then Inr (elems results)
          else (case get_prop apiResponse ''body'' of
            Inl e \<Rightarrow> Inl e
          | Inr body \<Rightarrow>
              if \<not> truthy body then Inr []
              else (case get_prop body ''results'' of
                Inl e \<Rightarrow> Inl e
              | Inr bresults \<Rightarrow>
                  if isArray bresults then Inr (elems bresults) else Inr [])))"

text \<open>
  The field of a response as the specification speaks of it: the value stored under the
  name when the response is an object that has it, \<^verbatim>\<open>undefined\<close> otherwise.
\<close>

definition field :: "jsval \<Rightarrow> string \<Rightarrow> jsval" where
  "field v k = (case v of JObj kvs \<Rightarrow> (case map_of kvs k of Some x \<Rightarrow> x | None \<Rightarrow> JUndefined)
                | _ \<Rightarrow> JUndefined)"

section \<open>Effects: external calls, exceptions, responses\<close>

text \<open>
  The operations of the two external clients that the server awaits: the CRM client
  (\<^verbatim>\<open>hubspotClient.crm...\<close>) and the completion client
  (\<^verbatim>\<open>openai.chat.completions.create\<close>). A call is an operation with its
  argument list.
\<close>

datatype api =
    ContactsGetPage
  | ContactsCreate
  | ContactsGetById
  | ContactsAssociationsGetAll
  | DealsGetPage
  | DealsCreate
  | DealsGetById
  | DealsAssociationsCreate
  | ChatCompletionsCreate

datatype call = Call api "jsval list"

text \<open>
  The external systems are opaque: what an awaited call settles with may depend on the
  call and on every call made before it. A world maps the calls made so far and the
  present call to \<open>Inr\<close> of the value the promise resolves with or \<open>Inl\<close> of the
  value it rejects with.
\<close>

type_synonym world = "call list \<Rightarrow> call \<Rightarrow> jsval + jsval"

text \<open>
  A computation inside a handler takes the list of calls made so far and returns the
  value or the thrown value, with the extended list. Sequencing stops at the first
  throw, as a \<^verbatim>\<open>try\<close> block does.
\<close>

type_synonym 'a act = "call list \<Rightarrow> (jsval + 'a) \<times> call list"

definition ret :: "'a \<Rightarrow> 'a act" where
  "ret x = (\<lambda>made. (Inr x, made))"

definition lift :: "jsval + 'a \<Rightarrow> 'a act" where
  "lift r = (\<lambda>made. (r, made))"

definition bnd :: "'a act \<Rightarrow> ('a \<Rightarrow> 'b act) \<Rightarrow> 'b act" where
  "bnd m f = (\<lambda>made. case m made of
                      (Inl e, made') \<Rightarrow> (Inl e, made')
                    | (Inr x, made') \<Rightarrow> f x made')"

definition await :: "world \<Rightarrow> call \<Rightarrow> jsval act" where
  "await w c = (\<lambda>made. (w made c, made @ [c]))"

text \<open>Sequencing of the pure reads that can throw.\<close>

definition thn :: "jsval + 'a \<Rightarrow> ('a \<Rightarrow> jsval + 'b) \<Rightarrow> jsval + 'b" where
  "thn r f = (case r of Inl e \<Rightarrow> Inl e | Inr x \<Rightarrow> f x)"

subsection \<open>The coercion \<^verbatim>\<open>String(v)\<close>\<close>

fun dec_nat :: "nat \<Rightarrow> string" where
  "dec_nat n =
     (if n < 10 then [''0123456789'' ! n]
      else dec_nat (n div 10) @ [''0123456789'' ! (n mod 10)])"

declare dec_nat.simps [simp del]

definition dec_int :: "int \<Rightarrow> string" where
  "dec_int i = (if i < 0 then CHR ''-'' # dec_nat (nat (- i)) else dec_nat (nat i))"

fun join_with :: "string \<Rightarrow> string list \<Rightarrow> string" where
  "join_with sep [] = []"
| "join_with sep [s] = s"
| "join_with sep (s # t # ss) = s @ sep @ join_with sep (t # ss)"

text \<open>\<^verbatim>\<open>Number.isSafeInteger\<close>: an integer of absolute value below \<open>2^53\<close>.\<close>

definition is_safe_integer :: "real \<Rightarrow> bool" where
  "is_safe_integer x = (x = of_int \<lfloor>x\<rfloor> \<and> \<bar>x\<bar> < 2 ^ 53)"

definition cannot_convert :: jsval where
  "cannot_convert = type_error ''Cannot convert object to primitive value''"

text \<open>
  \<^verbatim>\<open>String(v)\<close> for a value parsed from JSON; \<open>Inl\<close> is the \<^verbatim>\<open>TypeError\<close> it
  throws.
  \<^item> A safe integer is its decimal numeral. For every other finite number the text is
    that of the built-in \<^verbatim>\<open>Number::toString\<close> (shortest digits that read back as the
    same double, exponent form from \<open>10^21\<close> on), which the model takes as the
    parameter \<open>number_text\<close>.
  \<^item> An object is converted through its \<^verbatim>\<open>toString\<close> and then its
    \<^verbatim>\<open>valueOf\<close>. Without an own \<^verbatim>\<open>toString\<close> key the inherited method gives
    \<^verbatim>\<open>[object Object]\<close>. An own \<^verbatim>\<open>toString\<close> key holds a JSON value, which is not
    callable, and \<^verbatim>\<open>valueOf\<close>, own or inherited, gives no primitive either: the
    conversion throws.
  \<^item> An array is the join of its elements with a comma, where \<^verbatim>\<open>undefined\<close> and
    \<^verbatim>\<open>null\<close> elements give the empty string and the first element that throws makes
    the whole conversion throw.
\<close>

fun js_String :: "(real \<Rightarrow> string) \<Rightarrow> jsval \<Rightarrow> jsval + string"
  and js_String_elem :: "(real \<Rightarrow> string) \<Rightarrow> jsval \<Rightarrow> jsval + string"
  and js_String_list :: "(real \<Rightarrow> string) \<Rightarrow> jsval list \<Rightarrow> jsval + string list" where
  "js_String number_text JUndefined = Inr ''undefined''"
| "js_String number_text JNull = Inr ''null''"
| "js_String number_text (JBool b) = Inr (if b then ''true'' else ''false'')"
| "js_String number_text (JNum x) =
     Inr (if is_safe_integer x then dec_int \<lfloor>x\<rfloor> else number_text x)"
| "js_String number_text JNaN = Inr ''NaN''"
| "js_String number_text JInfinity = Inr ''Infinity''"
| "js_String number_text JNegInfinity = Inr ''-Infinity''"
| "js_String number_text JNegZero = Inr ''0''"
| "js_String number_text (JStr s) = Inr s"
| "js_String number_text (JArr xs) =
     thn (js_String_list number_text xs) (\<lambda>ss. Inr (join_with '','' ss))"
| "js_String number_text (JObj kvs) =
     (if map_of kvs ''toString'' = None then Inr ''[object Object]'' else Inl cannot_convert)"
| "js_String_elem number_text v =
     (if nullish v then Inr [] else js_String number_text v)"
| "js_String_list number_text [] = Inr []"
| "js_String_list number_text (x # xs) =
     thn (js_String_elem number_text x) (\<lambda>s.
     thn (js_String_list number_text xs) (\<lambda>ss. Inr (s # ss)))"

text \<open>
  The response a handler sends: \<^verbatim>\<open>res.status(s).json(v)\<close> is the record with
  status \<open>s\<close> and the value \<open>v\<close> handed to the serialiser; \<^verbatim>\<open>res.json(v)\<close>
  alone keeps the default status 200.
\<close>

record response =
  status :: jsval
  json :: jsval

definition ok :: "jsval \<Rightarrow> response" where
  "ok v = \<lparr>status = JNum 200, json = v\<rparr>"

text \<open>
  \<^verbatim>\<open>try { ... } catch (err) { ... }\<close> around the whole body of a handler, run on
  the empty list of calls: the result is the response sent and the calls made.
\<close>

definition try_catch :: "response act \<Rightarrow> (jsval \<Rightarrow> response) \<Rightarrow> response \<times> call list" where
  "try_catch m h = (case m [] of
                      (Inl err, made) \<Rightarrow> (h err, made)
                    | (Inr r, made) \<Rightarrow> (r, made))"

text \<open>\<^verbatim>\<open>handleHubSpotError\<close> (lines 60 to 70), without the console output.\<close>

definition handleHubSpotError :: "jsval \<Rightarrow> string \<Rightarrow> response" where
  "handleHubSpotError err message =
     (let details = js_or (opt_get (opt_get err ''response'') ''body'')
                      (js_or (opt_get err ''message'') (JStr ''Unknown HubSpot error''))
      in \<lparr>status = js_or (opt_get err ''statusCode'') (JNum 500),
          json = JObj [(''error'', JStr message), (''details'', details)]\<rparr>)"

text \<open>
  The record built from a single-item response \<open>r\<close> at lines 138 to 141, 201 to 203 and
  223 to 225, 264 to 267, 291 to 294 and 318 to 321:
  \<^verbatim>\<open>{ id: r.id || r.body?.id, properties: r.properties || r.body?.properties }\<close>.
\<close>

definition top_or_body :: "jsval \<Rightarrow> string \<Rightarrow> jsval + jsval" where
  "top_or_body r k =
     thn (get_prop r k) (\<lambda>top.
       if truthy top then Inr top
       else thn (get_prop r ''body'') (\<lambda>b. Inr (opt_get b k)))"

definition id_properties :: "jsval \<Rightarrow> jsval + jsval" where
  "id_properties r =
     thn (top_or_body r ''id'') (\<lambda>i.
     thn (top_or_body r ''properties'') (\<lambda>ps.
       Inr (JObj [(''id'', i), (''properties'', ps)])))"

text \<open>The test \<^verbatim>\<open>!v || !v.k\<close> of the validations.\<close>

definition lacks :: "jsval \<Rightarrow> string \<Rightarrow> jsval + bool" where
  "lacks v k =
     (if \<not> truthy v then Inr True
      else thn (get_prop v k) (\<lambda>x. Inr (\<not> truthy x)))"

definition error_only :: "string \<Rightarrow> jsval" where
  "error_only msg = JObj [(''error'', JStr msg)]"

definition bad_request :: "string \<Rightarrow> response" where
  "bad_request msg = \<lparr>status = JNum 400, json = error_only msg\<rparr>"

section \<open>Contacts\<close>

definition contact_properties :: jsval where
  "contact_properties =
     JArr [JStr ''firstname'', JStr ''lastname'', JStr ''email'', JStr ''phone'',
           JStr ''address'', JStr ''jobtitle'', JStr ''company'']"

definition deal_properties :: jsval where
  "deal_properties =
     JArr [JStr ''dealname'', JStr ''amount'', JStr ''dealstage'', JStr ''pipeline'']"

text \<open>
  The arguments of \<^verbatim>\<open>getPage\<close>: limit, after, properties, propertiesWithHistory,
  associations, archived.
\<close>

definition page_args :: "jsval \<Rightarrow> jsval list" where
  "page_args properties = [JNum 50, JUndefined, properties, JUndefined, JUndefined, JBool False]"

text \<open>\<^verbatim>\<open>GET /api/contacts\<close> (lines 89 to 121).\<close>

definition list_contacts :: "world \<Rightarrow> response \<times> call list" where
  "list_contacts w =
     try_catch
       (bnd (await w (Call ContactsGetPage (page_args contact_properties))) (\<lambda>apiResponse.
        bnd (lift (extractListResults apiResponse)) (\<lambda>results.
        ret (ok (JObj [(''results'', JArr results)])))))
       (\<lambda>err. handleHubSpotError err ''Error fetching contacts from HubSpot'')"

text \<open>\<^verbatim>\<open>POST /api/contacts\<close> (lines 124 to 147); the argument is \<^verbatim>\<open>req.body\<close>.\<close>

definition create_contact :: "world \<Rightarrow> jsval \<Rightarrow> response \<times> call list" where
  "create_contact w req_body =
     try_catch
       (bnd (lift (get_prop (js_or req_body (JObj [])) ''properties'')) (\<lambda>properties.
        bnd (lift (lacks properties ''email'')) (\<lambda>missing.
        if missing
        then ret (bad_request ''properties.email is required to create a contact'')
        else
          bnd (await w (Call ContactsCreate [JObj [(''properties'', properties)]]))
            (\<lambda>createResponse.
          bnd (lift (id_properties createResponse)) (\<lambda>contact.
          ret \<lparr>status = JNum 201, json = contact\<rparr>)))))
       (\<lambda>err. handleHubSpotError err ''Error creating contact in HubSpot'')"

section \<open>Deals\<close>

text \<open>\<^verbatim>\<open>GET /api/deals\<close> (lines 154 to 178).\<close>

definition list_deals :: "world \<Rightarrow> response \<times> call list" where
  "list_deals w =
     try_catch
       (bnd (await w (Call DealsGetPage (page_args deal_properties))) (\<lambda>apiResponse.
        bnd (lift (extractListResults apiResponse)) (\<lambda>results.
        ret (ok (JObj [(''results'', JArr results)])))))
       (\<lambda>err. handleHubSpotError err ''Error fetching deals from HubSpot'')"

definition associationSpec :: jsval where
  "associationSpec =
     JArr [JObj [(''associationCategory'', JStr ''HUBSPOT_DEFINED''),
                 (''associationTypeId'', JNum 3)]]"

text \<open>
  \<^verbatim>\<open>POST /api/deals\<close> (lines 181 to 233); the last argument is \<^verbatim>\<open>req.body\<close>.
  The arguments of the association call are evaluated before the call is made, so a
  throwing \<^verbatim>\<open>String(contactId)\<close> (line 218) leaves the association unmade.
\<close>

definition create_deal ::
  "(real \<Rightarrow> string) \<Rightarrow> world \<Rightarrow> jsval \<Rightarrow> response \<times> call list" where
  "create_deal number_text w req_body =
     try_catch
       (bnd (lift (get_prop (js_or req_body (JObj [])) ''dealProperties'')) (\<lambda>dealProperties.
        bnd (lift (get_prop (js_or req_body (JObj [])) ''contactId'')) (\<lambda>contactId.
        bnd (lift (lacks dealProperties ''dealname'')) (\<lambda>missing.
        if missing
        then ret (bad_request ''dealProperties.dealname is required'')
        else if \<not> truthy contactId
        then ret (bad_request ''contactId is required to associate the deal'')
        else
          bnd (await w (Call DealsCreate [JObj [(''properties'', dealProperties)]]))
            (\<lambda>createResponse.
          bnd (lift (top_or_body createResponse ''id'')) (\<lambda>dealId.
          bnd (lift (top_or_body createResponse ''properties'')) (\<lambda>dealPropertiesCreated.
          bnd (lift (js_String number_text contactId)) (\<lambda>contactText.
          bnd (await w (Call DealsAssociationsCreate
                 [dealId, JStr ''contacts'', JStr contactText, associationSpec]))
            (\<lambda>_.
          ret \<lparr>status = JNum 201,
               json = JObj [(''id'', dealId), (''properties'', dealPropertiesCreated)]\<rparr>)))))))))
       (\<lambda>err. handleHubSpotError err ''Error creating deal or associating it with contact'')"

text \<open>
  \<^verbatim>\<open>assocResults.map((a) => a.toObjectId)\<close>: the reads run from the first element
  on, and the first \<^verbatim>\<open>undefined\<close> or \<^verbatim>\<open>null\<close> element throws.
\<close>

fun map_toObjectId :: "jsval list \<Rightarrow> jsval + jsval list" where
  "map_toObjectId [] = Inr []"
| "map_toObjectId (a # as) =
     thn (get_prop a ''toObjectId'') (\<lambda>x.
     thn (map_toObjectId as) (\<lambda>xs. Inr (x # xs)))"

text \<open>
  Lines 247 and 248 (and again 305 and 306):
  \<^verbatim>\<open>const assocResults = associations.results || [];\<close>
  \<^verbatim>\<open>const dealIds = assocResults.map((a) => a.toObjectId).filter(Boolean);\<close>
  A truthy \<^verbatim>\<open>results\<close> that is no array has no \<^verbatim>\<open>map\<close> method.
\<close>

definition dealIds_of :: "jsval \<Rightarrow> jsval + jsval list" where
  "dealIds_of associations =
     thn (get_prop associations ''results'') (\<lambda>results.
       let assocResults = js_or results (JArr []) in
       if \<not> isArray assocResults
       then Inl (type_error ''assocResults.map is not a function'')
       else thn (map_toObjectId (elems assocResults)) (\<lambda>ids. Inr (filter truthy ids)))"

text \<open>
  The loop of lines 256 to 268 (and again 311 to 322): one \<^verbatim>\<open>getById\<close> is awaited
  per id, and its record is pushed, before the next id is taken.
\<close>

fun fetch_deals :: "world \<Rightarrow> jsval list \<Rightarrow> jsval list \<Rightarrow> jsval list act" where
  "fetch_deals w [] deals = ret deals"
| "fetch_deals w (i # ids) deals =
     bnd (await w (Call DealsGetById [i, deal_properties])) (\<lambda>deal.
     bnd (lift (id_properties deal)) (\<lambda>d.
     fetch_deals w ids (deals @ [d])))"

text \<open>
  \<^verbatim>\<open>GET /api/contacts/:contactId/deals\<close> (lines 236 to 278); the argument is the
  route parameter, a string.
\<close>

definition list_deals_for_contact :: "world \<Rightarrow> string \<Rightarrow> response \<times> call list" where
  "list_deals_for_contact w contactId =
     try_catch
       (bnd (await w (Call ContactsAssociationsGetAll [JStr contactId, JStr ''deals'']))
          (\<lambda>associations.
        bnd (lift (dealIds_of associations)) (\<lambda>dealIds.
        if dealIds = []
        then ret (ok (JObj [(''results'', JArr [])]))
        else
          bnd (fetch_deals w dealIds []) (\<lambda>deals.
          ret (ok (JObj [(''results'', JArr deals)]))))))
       (\<lambda>err. handleHubSpotError err ''Error fetching deals for specific contact from HubSpot'')"

section \<open>The customer summary\<close>

text \<open>\<^verbatim>\<open>getContactFromHubSpot\<close> (lines 285 to 295).\<close>

definition getContactFromHubSpot :: "world \<Rightarrow> jsval \<Rightarrow> jsval act" where
  "getContactFromHubSpot w contactId =
     bnd (await w (Call ContactsGetById [contactId, contact_properties])) (\<lambda>contact.
     lift (id_properties contact))"

text \<open>\<^verbatim>\<open>getDealsForContactFromHubSpot\<close> (lines 298 to 325).\<close>

definition getDealsForContactFromHubSpot :: "world \<Rightarrow> jsval \<Rightarrow> jsval list act" where
  "getDealsForContactFromHubSpot w contactId =
     bnd (await w (Call ContactsAssociationsGetAll [contactId, JStr ''deals'']))
       (\<lambda>associations.
     bnd (lift (dealIds_of associations)) (\<lambda>dealIds.
     if dealIds = [] then ret []
     else fetch_deals w dealIds []))"

text \<open>
  The client of the completion service: \<^verbatim>\<open>null\<close> unless the key is set
  (lines 28 to 35); an environment variable is a string or is absent.
\<close>

datatype openai_client = OpenAI string

definition init_openai :: "string option \<Rightarrow> openai_client option" where
  "init_openai OPENAI_API_KEY =
     (case OPENAI_API_KEY of
        None \<Rightarrow> None
      | Some k \<Rightarrow> if k \<noteq> [] then Some (OpenAI k) else None)"

text \<open>
  The prompt of lines 346 to 359. \<open>stringify\<close> stands for the built-in
  \<^verbatim>\<open>JSON.stringify(v, null, 2)\<close>, which the model takes as a parameter. The dash
  of the template is the three bytes of its UTF-8 form.
\<close>

definition nl :: string where
  "nl = [CHR 0x0A]"

definition prompt_of :: "(jsval \<Rightarrow> string) \<Rightarrow> jsval \<Rightarrow> jsval list \<Rightarrow> string" where
  "prompt_of stringify contact deals =
     nl @ ''You are helping Breezy, a smart home company, understand a customer''
        @ [CHR 0x27] @ ''s relationship with them.'' @ nl
     @ nl
     @ ''Customer (contact):'' @ nl
     @ stringify contact @ nl
     @ nl
     @ ''Deals (subscriptions):'' @ nl
     @ stringify (JArr deals) @ nl
     @ nl
     @ ''Please:'' @ nl
     @ ''1) Summarize this customer'' @ [CHR 0x27] @ ''s relationship with Breezy in 3''
        @ [CHR 0xE2, CHR 0x80, CHR 0x93] @ ''4 sentences.'' @ nl
     @ ''2) Suggest the next best marketing or sales action Breezy should take.'' @ nl
     @ ''Keep it concise and non-technical.'' @ nl"

text \<open>\<^verbatim>\<open>v[0]\<close>.\<close>

fun index0 :: "jsval \<Rightarrow> jsval + jsval" where
  "index0 JUndefined = Inl (cannot_read JUndefined ''0'')"
| "index0 JNull = Inl (cannot_read JNull ''0'')"
| "index0 (JArr xs) = Inr (case xs of [] \<Rightarrow> JUndefined | x # _ \<Rightarrow> x)"
| "index0 (JStr s) = Inr (case s of [] \<Rightarrow> JUndefined | c # _ \<Rightarrow> JStr [c])"
| "index0 (JObj kvs) = Inr (own_prop (JObj kvs) ''0'')"
| "index0 v = Inr JUndefined"

text \<open>\<^verbatim>\<open>completion.choices[0].message.content\<close> (line 366).\<close>

definition first_content :: "jsval \<Rightarrow> jsval + jsval" where
  "first_content completion =
     thn (get_prop completion ''choices'') (\<lambda>choices.
     thn (index0 choices) (\<lambda>choice.
     thn (get_prop choice ''message'') (\<lambda>message.
     get_prop message ''content'')))"

definition not_configured :: response where
  "not_configured =
     \<lparr>status = JNum 500,
      json = error_only
        ''AI not configured. Set OPENAI_API_KEY in your .env to enable this endpoint.''\<rparr>"

definition insight_failed :: "jsval \<Rightarrow> response" where
  "insight_failed err =
     \<lparr>status = JNum 500,
      json = JObj [(''error'', JStr ''Failed to generate AI insight''),
                   (''details'', js_or (opt_get err ''message'') err)]\<rparr>"

text \<open>The \<^verbatim>\<open>try\<close> block of the handler below (lines 343 to 367).\<close>

definition summarize :: "(jsval \<Rightarrow> string) \<Rightarrow> world \<Rightarrow> jsval \<Rightarrow> response act" where
  "summarize stringify w contactId =
     bnd (getContactFromHubSpot w contactId) (\<lambda>contact.
     bnd (getDealsForContactFromHubSpot w contactId) (\<lambda>deals.
     bnd (await w (Call ChatCompletionsCreate
            [JObj [(''model'', JStr ''gpt-4o''),
                   (''messages'',
                    JArr [JObj [(''role'', JStr ''user''),
                                (''content'',
                                 JStr (prompt_of stringify contact deals))]])]]))
       (\<lambda>completion.
     bnd (lift (first_content completion)) (\<lambda>summary.
     ret (ok (JObj [(''summary'', summary)]))))))"

text \<open>
  \<^verbatim>\<open>POST /api/ai/customer-summary\<close> (lines 328 to 375). The destructuring of the
  body and the two early returns stand before the \<^verbatim>\<open>try\<close>: \<open>Inl\<close> would be an
  exception that leaves the handler.
\<close>

definition customer_summary ::
  "(jsval \<Rightarrow> string) \<Rightarrow> openai_client option \<Rightarrow> world \<Rightarrow> jsval
     \<Rightarrow> (jsval + response) \<times> call list" where
  "customer_summary stringify openai w req_body =
     (case get_prop (js_or req_body (JObj [])) ''contactId'' of
        Inl e \<Rightarrow> (Inl e, [])
      | Inr contactId \<Rightarrow>
          if \<not> truthy contactId then (Inr (bad_request ''contactId is required''), [])
          else if openai = None then (Inr not_configured, [])
          else
            (case try_catch (summarize stringify w contactId) insight_failed of
               (r, made) \<Rightarrow> (Inr r, made)))"

section \<open>Notions of the specification\<close>

text \<open>
  The normalized pair of a single-item response in the words of the specification:
  \<^verbatim>\<open>id\<close> from the top-level field or, failing that, from the one nested under
  \<^verbatim>\<open>body\<close>, and \<^verbatim>\<open>properties\<close> likewise.
\<close>

definition normalized :: "jsval \<Rightarrow> jsval" where
  "normalized r =
     JObj [(''id'', js_or (field r ''id'') (field (field r ''body'') ''id'')),
           (''properties'',
            js_or (field r ''properties'') (field (field r ''body'') ''properties''))]"

text \<open>
  Some call of a list of calls was rejected with \<open>err\<close>: the world, asked with the
  calls made before it, gave \<open>Inl err\<close>.
\<close>

definition failed_with :: "world \<Rightarrow> call list \<Rightarrow> jsval \<Rightarrow> bool" where
  "failed_with w made err = (\<exists>i<length made. w (take i made) (made ! i) = Inl err)"

text \<open>
  A computation that only appends to the list of calls and that stops at a rejected call:
  a call it made that was rejected is the last call, and its error is the value thrown.
\<close>

definition tracked :: "world \<Rightarrow> 'a act \<Rightarrow> bool" where
  "tracked w m =
     (\<forall>made r made'. m made = (r, made') \<longrightarrow>
        (\<exists>cs. made' = made @ cs) \<and>
        (\<forall>i e. length made \<le> i \<and> i < length made' \<and> w (take i made') (made' ! i) = Inl e \<longrightarrow>
           Suc i = length made' \<and> r = Inl e))"

text \<open>
  The canonical shape of a record in the words of the specification: its \<^verbatim>\<open>id\<close>
  is a string and its \<^verbatim>\<open>properties\<close> are a mapping from names to strings.
\<close>

fun is_string :: "jsval \<Rightarrow> bool" where
  "is_string (JStr s) = True"
| "is_string v = False"

fun string_map :: "jsval \<Rightarrow> bool" where
  "string_map (JObj ps) = list_all (\<lambda>p. is_string (snd p)) ps"
| "string_map v = False"

definition canonical :: "jsval \<Rightarrow> bool" where
  "canonical v = (is_string (field v ''id'') \<and> string_map (field v ''properties''))"

text \<open>
  The two shape variants of a single-item response: the fields at top level, or, with
  nothing at top level, nested under \<^verbatim>\<open>body\<close>. In both the id is a non-empty
  string.
\<close>

definition top_level_variant :: "jsval \<Rightarrow> bool" where
  "top_level_variant r = (canonical r \<and> field r ''id'' \<noteq> JStr [])"

definition body_variant :: "jsval \<Rightarrow> bool" where
  "body_variant r =
     (field r ''id'' = JUndefined \<and> field r ''properties'' = JUndefined
      \<and> top_level_variant (field r ''body''))"

text \<open>
  The values that \<^verbatim>\<open>String\<close> cannot convert: an object with an own
  \<^verbatim>\<open>toString\<close> key, and an array that holds such a value.
\<close>

fun unprintable :: "jsval \<Rightarrow> bool"
  and unprintable_list :: "jsval list \<Rightarrow> bool" where
  "unprintable (JObj kvs) = (map_of kvs ''toString'' \<noteq> None)"
| "unprintable (JArr xs) = unprintable_list xs"
| "unprintable v = False"
| "unprintable_list [] = False"
| "unprintable_list (x # xs) = (unprintable x \<or> unprintable_list xs)"

text \<open>
  The decimal numeral of an integer, said through the value that a numeral has: its
  digits, read from the left, give the absolute value; there is no leading zero; and a
  minus sign stands in front exactly for a negative integer.
\<close>

definition digit_value :: "char \<Rightarrow> nat" where
  "digit_value c = length (takeWhile (\<lambda>x. x \<noteq> c) ''0123456789'')"

definition numeral_value :: "string \<Rightarrow> nat" where
  "numeral_value ds = foldl (\<lambda>a c. 10 * a + digit_value c) 0 ds"

definition canonical_digits :: "string \<Rightarrow> bool" where
  "canonical_digits ds =
     (ds \<noteq> [] \<and> list_all (\<lambda>c. c \<in> set ''0123456789'') ds
      \<and> (hd ds \<noteq> CHR ''0'' \<or> ds = ''0''))"

definition decimal_of :: "string \<Rightarrow> int \<Rightarrow> bool" where
  "decimal_of ds n =
     (case ds of
        [] \<Rightarrow> False
      | c # us \<Rightarrow>
          if c = CHR ''-''
          then n < 0 \<and> canonical_digits us \<and> int (numeral_value us) = - n
          else 0 \<le> n \<and> canonical_digits ds \<and> int (numeral_value ds) = n)"

text \<open>
  A call that, made after the given calls, resolves with a value other than
  \<^verbatim>\<open>undefined\<close> and \<^verbatim>\<open>null\<close>.
\<close>

definition fetched :: "world \<Rightarrow> call list \<Rightarrow> call \<Rightarrow> bool" where
  "fetched w made c = (case w made c of Inl e \<Rightarrow> False | Inr d \<Rightarrow> \<not> nullish d)"

section \<open>Example worlds and requests\<close>

text \<open>A CRM in which every call succeeds, and one in which every call is rejected.\<close>

fun crm_up :: world where
  "crm_up made (Call DealsCreate (a # args)) =
     Inr (JObj [(''id'', JStr ''9001''), (''properties'', field a ''properties'')])"
| "crm_up made (Call ContactsCreate (a # args)) =
     Inr (JObj [(''body'', JObj [(''id'', JStr ''501''),
                                 (''properties'', field a ''properties'')])])"
| "crm_up made (Call ContactsAssociationsGetAll args) =
     Inr (JObj [(''results'', JArr [JObj [(''toObjectId'', JStr ''9001'')],
                                    JObj [(''toObjectId'', JStr [])],
                                    JObj [(''toObjectId'', JStr ''9002'')]])])"
| "crm_up made (Call DealsGetById (i # args)) =
     Inr (JObj [(''id'', i), (''properties'', JObj [(''dealname'', JStr ''Annual Plan'')])])"
| "crm_up made (Call api args) = Inr (JObj [])"

definition not_found :: jsval where
  "not_found =
     JObj [(''statusCode'', JNum 404),
           (''message'', JStr ''HTTP request failed''),
           (''response'', JObj [(''body'', JObj [(''category'', JStr ''OBJECT_NOT_FOUND'')])])]"

definition crm_down :: world where
  "crm_down made c = Inl not_found"

definition annual_plan :: jsval where
  "annual_plan = JObj [(''dealname'', JStr ''Annual Plan'')]"

text \<open>A CRM in which only the association is rejected, by an error without status.\<close>

fun crm_no_assoc :: world where
  "crm_no_assoc made (Call DealsAssociationsCreate args) =
     Inl (JObj [(''message'', JStr ''socket hang up'')])"
| "crm_no_assoc made (Call api args) = crm_up made (Call api args)"

text \<open>A CRM in which every fetch of a deal is rejected.\<close>

fun crm_no_fetch :: world where
  "crm_no_fetch made (Call DealsGetById args) = Inl not_found"
| "crm_no_fetch made (Call api args) = crm_up made (Call api args)"

text \<open>A CRM whose contact page holds one contact nested under \<^verbatim>\<open>body\<close>.\<close>

definition wrapped_contact :: jsval where
  "wrapped_contact =
     JObj [(''body'', JObj [(''id'', JStr ''501''),
                            (''properties'', JObj [(''email'', JStr ''ada@example.com'')])])]"

fun crm_wrapped :: world where
  "crm_wrapped made (Call ContactsGetPage args) = Inr (JObj [(''results'', JArr [wrapped_contact])])"
| "crm_wrapped made (Call api args) = crm_up made (Call api args)"

section \<open>Properties\<close>

lemma truthy_not_nullish: "truthy v \<Longrightarrow> \<not> nullish v"
  by (cases v) simp_all

lemma own_prop_field: "own_prop v k = field v k"
  by (cases v) (simp_all add: field_def)

lemma field_not_object: "\<not> truthy v \<Longrightarrow> field v k = JUndefined"
  by (cases v) (simp_all add: field_def)

lemma array_case: "isArray v \<Longrightarrow> (case v of JArr xs \<Rightarrow> xs | _ \<Rightarrow> d) = elems v"
  by (cases v) simp_all

lemma not_array_case: "\<not> isArray v \<Longrightarrow> (case v of JArr xs \<Rightarrow> f xs | _ \<Rightarrow> d) = d"
  by (cases v) simp_all

lemma array_or_empty:
  "(case v of JArr xs \<Rightarrow> xs | _ \<Rightarrow> []) = (if isArray v then elems v else [])"
  by (cases v) simp_all

text \<open>
  Claim C3. For every external list response, \<^verbatim>\<open>extractListResults\<close> returns the
  top-level \<^verbatim>\<open>results\<close> field when that is an array; otherwise the nested
  \<^verbatim>\<open>body.results\<close> field when that is an array; otherwise the empty list. The cases
  are tried in this order and the function never throws: its value is always \<open>Inr\<close>
  of a list.
\<close>

theorem extractListResults_spec:
  "extractListResults r =
     Inr (case field r ''results'' of
            JArr xs \<Rightarrow> xs
          | _ \<Rightarrow> (case field (field r ''body'') ''results'' of
                     JArr ys \<Rightarrow> ys
                   | _ \<Rightarrow> []))"
proof (cases "truthy r")
  case False
  then show ?thesis
    by (simp add: extractListResults_def field_not_object)
next
  case True
  then have nn: "\<not> nullish r" by (rule truthy_not_nullish)
  show ?thesis
  proof (cases "isArray (field r ''results'')")
    case top: True
    with True nn show ?thesis
      by (simp add: extractListResults_def get_prop_def own_prop_field array_case)
  next
    case top: False
    show ?thesis
    proof (cases "truthy (field r ''body'')")
      case False
      with True nn top show ?thesis
        by (simp add: extractListResults_def get_prop_def own_prop_field
            field_not_object not_array_case)
    next
      case body: True
      then have "\<not> nullish (field r ''body'')" by (rule truthy_not_nullish)
      with True nn top body show ?thesis
        by (simp add: extractListResults_def get_prop_def own_prop_field
            not_array_case array_or_empty)
    qed
  qed
qed

subsection \<open>Reads through the total accessor\<close>

lemmas act_defs = ret_def lift_def bnd_def await_def try_catch_def thn_def

lemma body_read: "get_prop (js_or b (JObj [])) k = Inr (field b k)"
  by (cases b) (simp_all add: get_prop_def js_or_def field_def)

lemma get_prop_field: "\<not> nullish v \<Longrightarrow> get_prop v k = Inr (field v k)"
  by (simp add: get_prop_def own_prop_field)

lemma opt_get_field: "opt_get v k = field v k"
  by (cases v) (simp_all add: opt_get_def field_def)

lemma lacks_field: "lacks v k = Inr (\<not> truthy (field v k))"
  by (cases v) (simp_all add: lacks_def get_prop_def thn_def field_def)

subsection \<open>Validation\<close>

text \<open>
  Claim C7. In the create-deal-with-association handler a missing
  \<^verbatim>\<open>dealProperties.dealname\<close> and a missing \<^verbatim>\<open>contactId\<close> each give a 400
  response of their own. The name is checked first: without it the response is the one
  about the name, whatever \<^verbatim>\<open>contactId\<close> is. Either response is sent with no
  external call made: the list of calls is empty.
\<close>

theorem create_deal_validation:
  "(\<not> truthy (field (field req_body ''dealProperties'') ''dealname'') \<longrightarrow>
      create_deal number_text w req_body =
        (\<lparr>status = JNum 400,
          json = JObj [(''error'', JStr ''dealProperties.dealname is required'')]\<rparr>, []))
   \<and> (truthy (field (field req_body ''dealProperties'') ''dealname'')
        \<and> \<not> truthy (field req_body ''contactId'') \<longrightarrow>
      create_deal number_text w req_body =
        (\<lparr>status = JNum 400,
          json = JObj [(''error'', JStr ''contactId is required to associate the deal'')]\<rparr>,
         []))
   \<and> JStr ''dealProperties.dealname is required''
        \<noteq> JStr ''contactId is required to associate the deal''"
  by (simp add: create_deal_def act_defs body_read lacks_field bad_request_def error_only_def)

theorem create_deal_validation_witness:
  "create_deal (\<lambda>x. []) crm_up (JObj [(''contactId'', JStr ''501'')]) =
     (\<lparr>status = JNum 400,
       json = JObj [(''error'', JStr ''dealProperties.dealname is required'')]\<rparr>, [])
   \<and> create_deal (\<lambda>x. []) crm_up (JObj [(''dealProperties'', annual_plan)]) =
     (\<lparr>status = JNum 400,
       json = JObj [(''error'', JStr ''contactId is required to associate the deal'')]\<rparr>, [])"
  using create_deal_validation
      [where req_body = "JObj [(''contactId'', JStr ''501'')]" and w = crm_up and number_text = "\<lambda>x. []"]
    create_deal_validation
      [where req_body = "JObj [(''dealProperties'', annual_plan)]" and w = crm_up and number_text = "\<lambda>x. []"]
  by (simp add: field_def annual_plan_def)

text \<open>
  Claim C6. For a customer-summary request with a \<^verbatim>\<open>contactId\<close>, when no
  completion client is configured the handler answers 500 with the configuration
  message, and it has made no call by then: the check stands before the fetches of the
  contact and of the deals.
\<close>

theorem customer_summary_not_configured:
  "truthy (field req_body ''contactId'') \<Longrightarrow>
   customer_summary stringify None w req_body =
     (Inr \<lparr>status = JNum 500,
           json = JObj [(''error'', JStr
             ''AI not configured. Set OPENAI_API_KEY in your .env to enable this endpoint.'')]\<rparr>,
      [])"
  by (simp add: customer_summary_def body_read not_configured_def error_only_def)

theorem customer_summary_not_configured_witness:
  "truthy (field (JObj [(''contactId'', JStr ''501'')]) ''contactId'')
   \<and> init_openai None = None
   \<and> customer_summary (\<lambda>v. []) (init_openai None) crm_up (JObj [(''contactId'', JStr ''501'')]) =
     (Inr \<lparr>status = JNum 500,
           json = JObj [(''error'', JStr
             ''AI not configured. Set OPENAI_API_KEY in your .env to enable this endpoint.'')]\<rparr>,
      [])"
proof -
  have h: "truthy (field (JObj [(''contactId'', JStr ''501'')]) ''contactId'')"
    by (simp add: field_def)
  show ?thesis
    using h customer_summary_not_configured [OF h, of "\<lambda>v. []" crm_up]
    by (simp add: init_openai_def)
qed

text \<open>
  Claim C9. In the customer-summary handler the presence of \<^verbatim>\<open>contactId\<close> is
  checked before the configuration of the completion client: a request without
  \<^verbatim>\<open>contactId\<close> gets 400, not 500, also when no client is configured.
\<close>

theorem customer_summary_contactId_first:
  "\<not> truthy (field req_body ''contactId'') \<Longrightarrow>
   customer_summary stringify None w req_body =
     (Inr \<lparr>status = JNum 400, json = JObj [(''error'', JStr ''contactId is required'')]\<rparr>, [])"
  by (simp add: customer_summary_def body_read bad_request_def error_only_def)

theorem customer_summary_contactId_first_witness:
  "\<not> truthy (field (JObj []) ''contactId'')
   \<and> customer_summary (\<lambda>v. []) None crm_up (JObj []) =
     (Inr \<lparr>status = JNum 400, json = JObj [(''error'', JStr ''contactId is required'')]\<rparr>, [])"
proof -
  have h: "\<not> truthy (field (JObj []) ''contactId'')"
    by (simp add: field_def)
  show ?thesis
    using h customer_summary_contactId_first [OF h, of "\<lambda>v. []" crm_up] by simp
qed

text \<open>
  Claim C10. The validations test truthiness, not presence. Whenever the value read
  for \<^verbatim>\<open>properties.email\<close>, for \<^verbatim>\<open>dealProperties.dealname\<close> or for
  \<^verbatim>\<open>contactId\<close> is falsy (the empty string, zero, \<^verbatim>\<open>false\<close>, \<^verbatim>\<open>null\<close>, or
  \<^verbatim>\<open>undefined\<close>, which is what an absent field reads as), the handler sends one and
  the same 400 response and makes no call; so a falsy value is rejected exactly as an
  absent field is.
\<close>

theorem validation_by_truthiness:
  "(\<not> truthy (field (field req_body ''properties'') ''email'') \<longrightarrow>
      create_contact w req_body =
        (bad_request ''properties.email is required to create a contact'', []))
   \<and> (\<not> truthy (field (field req_body ''dealProperties'') ''dealname'') \<longrightarrow>
      create_deal number_text w req_body = (bad_request ''dealProperties.dealname is required'', []))
   \<and> (truthy (field (field req_body ''dealProperties'') ''dealname'')
        \<and> \<not> truthy (field req_body ''contactId'') \<longrightarrow>
      create_deal number_text w req_body =
        (bad_request ''contactId is required to associate the deal'', []))
   \<and> (\<not> truthy (field req_body ''contactId'') \<longrightarrow>
      customer_summary stringify openai w req_body =
        (Inr (bad_request ''contactId is required''), []))
   \<and> status (bad_request msg) = JNum 400"
  by (simp add: create_contact_def create_deal_def customer_summary_def act_defs
      body_read lacks_field bad_request_def)

theorem validation_by_truthiness_witness:
  "create_contact crm_up (JObj [(''properties'', JObj [(''email'', JStr [])])]) =
     create_contact crm_up (JObj [(''properties'', JObj [])])
   \<and> create_deal (\<lambda>x. []) crm_up (JObj [(''dealProperties'', JObj [(''dealname'', JNum 0)])]) =
     create_deal (\<lambda>x. []) crm_up (JObj [(''dealProperties'', JObj [])])
   \<and> create_deal (\<lambda>x. []) crm_up (JObj [(''dealProperties'', annual_plan), (''contactId'', JNull)]) =
     create_deal (\<lambda>x. []) crm_up (JObj [(''dealProperties'', annual_plan)])
   \<and> customer_summary (\<lambda>v. []) None crm_up (JObj [(''contactId'', JBool False)]) =
     customer_summary (\<lambda>v. []) None crm_up (JObj [])
   \<and> create_contact crm_up (JObj [(''properties'', JObj [(''email'', JStr [])])]) =
     (\<lparr>status = JNum 400,
       json = JObj [(''error'', JStr ''properties.email is required to create a contact'')]\<rparr>,
      [])"
  using
    validation_by_truthiness
      [where req_body = "JObj [(''properties'', JObj [(''email'', JStr [])])]" and w = crm_up and number_text = "\<lambda>x. []"]
    validation_by_truthiness
      [where req_body = "JObj [(''properties'', JObj [])]" and w = crm_up and number_text = "\<lambda>x. []"]
    validation_by_truthiness
      [where req_body = "JObj [(''dealProperties'', JObj [(''dealname'', JNum 0)])]" and w = crm_up and number_text = "\<lambda>x. []"]
    validation_by_truthiness
      [where req_body = "JObj [(''dealProperties'', JObj [])]" and w = crm_up and number_text = "\<lambda>x. []"]
    validation_by_truthiness
      [where req_body = "JObj [(''dealProperties'', annual_plan), (''contactId'', JNull)]" and w = crm_up and number_text = "\<lambda>x. []"]
    validation_by_truthiness
      [where req_body = "JObj [(''dealProperties'', annual_plan)]" and w = crm_up and number_text = "\<lambda>x. []"]
    validation_by_truthiness
      [where req_body = "JObj [(''contactId'', JBool False)]" and w = crm_up and number_text = "\<lambda>x. []" and stringify = "\<lambda>v. []" and openai = None]
    validation_by_truthiness
      [where req_body = "JObj []" and w = crm_up and number_text = "\<lambda>x. []" and stringify = "\<lambda>v. []" and openai = None]
  by (simp add: field_def annual_plan_def bad_request_def error_only_def)

subsection \<open>Single-item responses\<close>

lemma top_or_body_field:
  "\<not> nullish r \<Longrightarrow> top_or_body r k = Inr (js_or (field r k) (field (field r ''body'') k))"
  by (simp add: top_or_body_def thn_def get_prop_field opt_get_field js_or_def)

lemma top_or_body_nullish: "nullish r \<Longrightarrow> top_or_body r k = Inl (cannot_read r k)"
  by (simp add: top_or_body_def thn_def get_prop_def)

lemma id_properties_normalized: "\<not> nullish r \<Longrightarrow> id_properties r = Inr (normalized r)"
  by (simp add: id_properties_def top_or_body_field thn_def normalized_def)

lemma id_properties_nullish: "nullish r \<Longrightarrow> id_properties r = Inl (cannot_read r ''id'')"
  by (simp add: id_properties_def top_or_body_nullish thn_def)

subsection \<open>The coercion of the contact id\<close>

lemma js_String_throws:
  "(unprintable v \<longrightarrow> js_String nt v = Inl cannot_convert)
     \<and> (\<not> unprintable v \<longrightarrow> (\<exists>s. js_String nt v = Inr s))"
  "(unprintable v \<longrightarrow> js_String_elem nt v = Inl cannot_convert)
     \<and> (\<not> unprintable v \<longrightarrow> (\<exists>s. js_String_elem nt v = Inr s))"
  "(unprintable_list vs \<longrightarrow> js_String_list nt vs = Inl cannot_convert)
     \<and> (\<not> unprintable_list vs \<longrightarrow> (\<exists>ss. js_String_list nt vs = Inr ss))"
proof (induction nt v and nt v and nt vs rule: js_String_js_String_elem_js_String_list.induct)
  case (12 number_text v)
  then show ?case by (cases v) simp_all
next
  case (14 number_text x xs)
  then show ?case by (auto simp add: thn_def)
qed (simp_all add: thn_def, auto)

lemma js_String_unprintable: "unprintable v \<Longrightarrow> js_String nt v = Inl cannot_convert"
  using js_String_throws(1) [of v nt] by simp

lemma js_String_printable: "\<not> unprintable v \<Longrightarrow> \<exists>s. js_String nt v = Inr s"
  using js_String_throws(1) [of v nt] by simp

lemma digit_at:
  assumes "d < 10"
  shows "digit_value (''0123456789'' ! d) = d \<and> ''0123456789'' ! d \<in> set ''0123456789''
   \<and> ''0123456789'' ! d \<noteq> CHR ''-'' \<and> (''0123456789'' ! d = CHR ''0'' \<longrightarrow> d = 0)"
proof -
  have "\<forall>d\<in>set [0, 1, 2, 3, 4, 5, 6, 7, 8, 9 :: nat].
      digit_value (''0123456789'' ! d) = d \<and> ''0123456789'' ! d \<in> set ''0123456789''
      \<and> ''0123456789'' ! d \<noteq> CHR ''-'' \<and> (''0123456789'' ! d = CHR ''0'' \<longrightarrow> d = 0)"
    by (simp add: digit_value_def)
  moreover from assms have "d \<in> set [0, 1, 2, 3, 4, 5, 6, 7, 8, 9 :: nat]"
    by simp arith
  ultimately show ?thesis by blast
qed

lemma numeral_value_snoc: "numeral_value (ds @ [c]) = 10 * numeral_value ds + digit_value c"
  by (simp add: numeral_value_def)

lemma dec_nat_value: "numeral_value (dec_nat n) = n"
proof (induction n rule: dec_nat.induct)
  case (1 n)
  show ?case
  proof (cases "n < 10")
    case True
    then show ?thesis
      by (subst dec_nat.simps) (simp add: numeral_value_def digit_at)
  next
    case False
    with 1 have "numeral_value (dec_nat (n div 10)) = n div 10" by simp
    with False show ?thesis
      by (subst dec_nat.simps) (simp add: numeral_value_snoc digit_at)
  qed
qed

lemma dec_nat_digits: "dec_nat n \<noteq> [] \<and> list_all (\<lambda>c. c \<in> set ''0123456789'') (dec_nat n)"
proof (induction n rule: dec_nat.induct)
  case (1 n)
  show ?case
  proof (cases "n < 10")
    case True
    with digit_at [of n] show ?thesis
      by (subst (1 2) dec_nat.simps) simp
  next
    case False
    with 1 have "list_all (\<lambda>c. c \<in> set ''0123456789'') (dec_nat (n div 10))" by simp
    with False digit_at [of "n mod 10"] show ?thesis
      by (subst (1 2) dec_nat.simps) simp
  qed
qed

lemma dec_nat_hd: "hd (dec_nat n) \<noteq> CHR ''-'' \<and> (hd (dec_nat n) = CHR ''0'' \<longrightarrow> n = 0)"
proof (induction n rule: dec_nat.induct)
  case (1 n)
  show ?case
  proof (cases "n < 10")
    case True
    with digit_at [of n] show ?thesis
      by (subst (1 2) dec_nat.simps) simp
  next
    case False
    with 1 have ih: "hd (dec_nat (n div 10)) \<noteq> CHR ''-''
        \<and> (hd (dec_nat (n div 10)) = CHR ''0'' \<longrightarrow> n div 10 = 0)"
      by simp
    from dec_nat_digits [of "n div 10"] have ne: "dec_nat (n div 10) \<noteq> []" by simp
    from False have "n div 10 \<noteq> 0" by simp
    with False ih ne show ?thesis
      by (subst (1 2) dec_nat.simps) simp
  qed
qed

lemma dec_nat_zero: "dec_nat 0 = ''0''"
  by (simp add: dec_nat.simps)

lemma dec_nat_canonical: "canonical_digits (dec_nat n)"
  using dec_nat_digits [of n] dec_nat_hd [of n] dec_nat_zero
  by (auto simp add: canonical_digits_def)

lemma dec_int_decimal: "decimal_of (dec_int n) n"
proof (cases "n < 0")
  case True
  with dec_nat_canonical [of "nat (- n)"] dec_nat_value [of "nat (- n)"]
  show ?thesis by (simp add: decimal_of_def dec_int_def)
next
  case False
  obtain c us where ds: "dec_nat (nat n) = c # us"
    using dec_nat_digits [of "nat n"] by (cases "dec_nat (nat n)") simp_all
  with dec_nat_hd [of "nat n"] have "c \<noteq> CHR ''-''" by simp
  with False ds dec_nat_canonical [of "nat n"] dec_nat_value [of "nat n"]
  show ?thesis by (simp add: decimal_of_def dec_int_def)
qed

lemma js_String_safe_integer:
  assumes "\<bar>n\<bar> < 2 ^ 53"
  shows "js_String nt (JNum (of_int n)) = Inr (dec_int n)"
proof -
  from assms have "\<bar>real_of_int n\<bar> < 2 ^ 53"
    by (metis of_int_abs of_int_less_numeral_power_cancel_iff)
  then show ?thesis by (simp add: is_safe_integer_def)
qed

subsection \<open>Creating a deal and associating it\<close>

lemma create_deal_created:
  assumes "truthy (field (field req_body ''dealProperties'') ''dealname'')"
    and "truthy (field req_body ''contactId'')"
    and "w [] (Call DealsCreate [JObj [(''properties'', field req_body ''dealProperties'')]]) = Inr r"
    and "\<not> nullish r"
  shows "create_deal nt w req_body =
     (case js_String nt (field req_body ''contactId'') of
        Inl e \<Rightarrow>
          (handleHubSpotError e ''Error creating deal or associating it with contact'',
           [Call DealsCreate [JObj [(''properties'', field req_body ''dealProperties'')]]])
      | Inr s \<Rightarrow>
          (case w [Call DealsCreate [JObj [(''properties'', field req_body ''dealProperties'')]]]
                  (Call DealsAssociationsCreate
                     [js_or (field r ''id'') (field (field r ''body'') ''id''), JStr ''contacts'',
                      JStr s, associationSpec]) of
             Inl e \<Rightarrow> handleHubSpotError e ''Error creating deal or associating it with contact''
           | Inr a \<Rightarrow> \<lparr>status = JNum 201, json = normalized r\<rparr>,
           [Call DealsCreate [JObj [(''properties'', field req_body ''dealProperties'')]],
            Call DealsAssociationsCreate
              [js_or (field r ''id'') (field (field r ''body'') ''id''), JStr ''contacts'',
               JStr s, associationSpec]]))"
  using assms
  by (simp add: create_deal_def act_defs body_read lacks_field top_or_body_field normalized_def
      split: sum.splits)

lemma cannot_convert_response:
  "handleHubSpotError cannot_convert message =
     \<lparr>status = JNum 500,
      json = JObj [(''error'', JStr message),
                   (''details'', JStr ''Cannot convert object to primitive value'')]\<rparr>"
  by (simp add: handleHubSpotError_def cannot_convert_def type_error_def opt_get_def js_or_def)

text \<open>
  Claim C1, as the code has it. Take a create-deal-with-association request whose body
  carries a truthy \<^verbatim>\<open>dealProperties.dealname\<close> and a truthy \<^verbatim>\<open>contactId\<close>, and let
  the external deal creation have resolved with the created deal \<open>r\<close> (a value other than
  \<^verbatim>\<open>undefined\<close> and \<^verbatim>\<open>null\<close>).
  \<^item> When \<^verbatim>\<open>String(contactId)\<close> gives the string \<open>s\<close>, the calls made are exactly the
    creation followed by one association call, whose arguments are the deal id,
    \<^verbatim>\<open>"contacts"\<close>, the string \<open>s\<close>, and the one-element list with category
    \<^verbatim>\<open>HUBSPOT_DEFINED\<close> and type id 3. When the association resolves, with whatever
    value \<open>a\<close>, the response is 201 with the normalized record of the deal; the value
    \<open>a\<close> does not occur in it.
  \<^item> The coercion gives a string for every contact id that is neither an object with an
    own \<^verbatim>\<open>toString\<close> key nor an array that holds one. A string is passed on as it
    is; a safe integer is passed on as its decimal numeral; \<^verbatim>\<open>true\<close>, the
    infinities and an object without an own \<^verbatim>\<open>toString\<close> key give their fixed
    texts; an array gives the texts of its elements joined by commas.
  \<^item> For the remaining contact ids the coercion throws: the deal has been created, no
    association call is made, and the response is 500 with the message of the
    \<^verbatim>\<open>TypeError\<close> as details.
\<close>

theorem create_deal_associates:
  fixes number_text :: "real \<Rightarrow> string" and w :: world and req_body r :: jsval
  defines "dealProperties \<equiv> field req_body ''dealProperties''"
    and "contactId \<equiv> field req_body ''contactId''"
  defines "creation \<equiv> Call DealsCreate [JObj [(''properties'', dealProperties)]]"
    and "association \<equiv> \<lambda>s.
      Call DealsAssociationsCreate
        [js_or (field r ''id'') (field (field r ''body'') ''id''),
         JStr ''contacts'',
         JStr s,
         JArr [JObj [(''associationCategory'', JStr ''HUBSPOT_DEFINED''),
                     (''associationTypeId'', JNum 3)]]]"
  assumes "truthy (field dealProperties ''dealname'')"
    and "truthy contactId"
    and "w [] creation = Inr r"
    and "\<not> nullish r"
  shows "(\<forall>s. js_String number_text contactId = Inr s \<longrightarrow>
            snd (create_deal number_text w req_body) = [creation, association s]
            \<and> (\<forall>a. w [creation] (association s) = Inr a \<longrightarrow>
                  fst (create_deal number_text w req_body) =
                    \<lparr>status = JNum 201, json = normalized r\<rparr>))
     \<and> (\<not> unprintable contactId \<longrightarrow> (\<exists>s. js_String number_text contactId = Inr s))
     \<and> (\<forall>t. contactId = JStr t \<longrightarrow>
            snd (create_deal number_text w req_body) = [creation, association t])
     \<and> (\<forall>n. contactId = JNum (of_int n) \<and> \<bar>n\<bar> < 2 ^ 53 \<longrightarrow>
            (\<exists>ds. decimal_of ds n
               \<and> snd (create_deal number_text w req_body) = [creation, association ds]))
     \<and> (contactId = JBool True \<longrightarrow> js_String number_text contactId = Inr ''true'')
     \<and> (contactId = JInfinity \<longrightarrow> js_String number_text contactId = Inr ''Infinity'')
     \<and> (contactId = JNegInfinity \<longrightarrow>
            js_String number_text contactId = Inr ''-Infinity'')
     \<and> (\<forall>kvs. contactId = JObj kvs \<and> map_of kvs ''toString'' = None \<longrightarrow>
            js_String number_text contactId = Inr ''[object Object]'')
     \<and> (contactId = JArr [] \<longrightarrow> js_String number_text contactId = Inr [])
     \<and> (\<forall>v. contactId = JArr [v] \<longrightarrow>
            js_String number_text contactId =
              (if nullish v then Inr [] else js_String number_text v))
     \<and> (\<forall>t u. contactId = JArr [JStr t, JStr u] \<longrightarrow>
            js_String number_text contactId = Inr (t @ '','' @ u))
     \<and> (unprintable contactId \<longrightarrow>
            create_deal number_text w req_body =
              (\<lparr>status = JNum 500,
                json = JObj [(''error'',
                              JStr ''Error creating deal or associating it with contact''),
                             (''details'',
                              JStr ''Cannot convert object to primitive value'')]\<rparr>,
               [creation]))"
proof -
  note run = create_deal_created
    [where w = w and nt = number_text, OF assms(5,6) [unfolded dealProperties_def contactId_def]
       assms(7) [unfolded creation_def dealProperties_def] assms(8),
     folded dealProperties_def contactId_def, folded creation_def]
  have given: "snd (create_deal number_text w req_body) = [creation, association s]
            \<and> (\<forall>a. w [creation] (association s) = Inr a \<longrightarrow>
                  fst (create_deal number_text w req_body) =
                    \<lparr>status = JNum 201, json = normalized r\<rparr>)"
    if "js_String number_text contactId = Inr s" for s
    using run that by (simp add: association_def associationSpec_def)
  have thrown: "create_deal number_text w req_body =
              (\<lparr>status = JNum 500,
                json = JObj [(''error'',
                              JStr ''Error creating deal or associating it with contact''),
                             (''details'',
                              JStr ''Cannot convert object to primitive value'')]\<rparr>,
               [creation])"
    if "unprintable contactId"
    using run js_String_unprintable [OF that, of number_text]
    by (simp add: cannot_convert_response)
  have string: "snd (create_deal number_text w req_body) = [creation, association t]"
    if "contactId = JStr t" for t
    using given [of t] that by simp
  have integer: "\<exists>ds. decimal_of ds n
               \<and> snd (create_deal number_text w req_body) = [creation, association ds]"
    if "contactId = JNum (of_int n)" "\<bar>n\<bar> < 2 ^ 53" for n
  proof -
    from that js_String_safe_integer [OF that(2), of number_text]
    have "js_String number_text contactId = Inr (dec_int n)" by simp
    from given [OF this] dec_int_decimal [of n] show ?thesis by blast
  qed
  have others:
    "contactId = JBool True \<longrightarrow> js_String number_text contactId = Inr ''true''"
    "contactId = JInfinity \<longrightarrow> js_String number_text contactId = Inr ''Infinity''"
    "contactId = JNegInfinity \<longrightarrow> js_String number_text contactId = Inr ''-Infinity''"
    "\<forall>kvs. contactId = JObj kvs \<and> map_of kvs ''toString'' = None \<longrightarrow>
       js_String number_text contactId = Inr ''[object Object]''"
    "contactId = JArr [] \<longrightarrow> js_String number_text contactId = Inr []"
    "\<forall>v. contactId = JArr [v] \<longrightarrow>
       js_String number_text contactId =
         (if nullish v then Inr [] else js_String number_text v)"
    "\<forall>t u. contactId = JArr [JStr t, JStr u] \<longrightarrow>
       js_String number_text contactId = Inr (t @ '','' @ u)"
    by (auto simp add: thn_def split: sum.splits)
  from given thrown string integer js_String_printable [of contactId number_text]
  have "(\<forall>s. js_String number_text contactId = Inr s \<longrightarrow>
            snd (create_deal number_text w req_body) = [creation, association s]
            \<and> (\<forall>a. w [creation] (association s) = Inr a \<longrightarrow>
                  fst (create_deal number_text w req_body) =
                    \<lparr>status = JNum 201, json = normalized r\<rparr>))
     \<and> (\<not> unprintable contactId \<longrightarrow> (\<exists>s. js_String number_text contactId = Inr s))
     \<and> (\<forall>t. contactId = JStr t \<longrightarrow>
            snd (create_deal number_text w req_body) = [creation, association t])
     \<and> (\<forall>n. contactId = JNum (of_int n) \<and> \<bar>n\<bar> < 2 ^ 53 \<longrightarrow>
            (\<exists>ds. decimal_of ds n
               \<and> snd (create_deal number_text w req_body) = [creation, association ds]))"
    by blast
  with others thrown show ?thesis by blast
qed

theorem create_deal_associates_witness:
  "create_deal (\<lambda>x. []) crm_up
     (JObj [(''dealProperties'', annual_plan), (''contactId'', JNum 12345)]) =
     (\<lparr>status = JNum 201,
       json = JObj [(''id'', JStr ''9001''), (''properties'', annual_plan)]\<rparr>,
      [Call DealsCreate [JObj [(''properties'', annual_plan)]],
       Call DealsAssociationsCreate
         [JStr ''9001'', JStr ''contacts'', JStr ''12345'',
          JArr [JObj [(''associationCategory'', JStr ''HUBSPOT_DEFINED''),
                      (''associationTypeId'', JNum 3)]]]])
   \<and> snd (create_deal (\<lambda>x. []) crm_up
          (JObj [(''dealProperties'', annual_plan), (''contactId'', JStr ''501'')])) =
      [Call DealsCreate [JObj [(''properties'', annual_plan)]],
       Call DealsAssociationsCreate
         [JStr ''9001'', JStr ''contacts'', JStr ''501'',
          JArr [JObj [(''associationCategory'', JStr ''HUBSPOT_DEFINED''),
                      (''associationTypeId'', JNum 3)]]]]"
proof -
  let ?b = "JObj [(''dealProperties'', annual_plan), (''contactId'', JNum 12345)]"
  let ?c = "JObj [(''dealProperties'', annual_plan), (''contactId'', JStr ''501'')]"
  let ?r = "JObj [(''id'', JStr ''9001''), (''properties'', annual_plan)]"
  have dn: "truthy (field (field ?b ''dealProperties'') ''dealname'')"
    by (simp add: field_def annual_plan_def)
  have cid: "truthy (field ?b ''contactId'')"
    by (simp add: field_def)
  have cr: "crm_up [] (Call DealsCreate [JObj [(''properties'', field ?b ''dealProperties'')]]) = Inr ?r"
    by (simp add: field_def)
  have nn: "\<not> nullish ?r" by simp
  have str: "js_String (\<lambda>x. []) (field ?b ''contactId'') = Inr ''12345''"
    by (simp add: field_def is_safe_integer_def dec_int_def dec_nat.simps)
  have "snd (create_deal (\<lambda>x. []) crm_up ?b) =
       [Call DealsCreate [JObj [(''properties'', annual_plan)]],
       Call DealsAssociationsCreate
         [JStr ''9001'', JStr ''contacts'', JStr ''12345'',
          JArr [JObj [(''associationCategory'', JStr ''HUBSPOT_DEFINED''),
                      (''associationTypeId'', JNum 3)]]]]"
     and "fst (create_deal (\<lambda>x. []) crm_up ?b) = \<lparr>status = JNum 201, json = ?r\<rparr>"
    using create_deal_associates
      [where w = crm_up and req_body = ?b and r = ?r and number_text = "\<lambda>x. []",
       OF dn cid cr nn] str
    by (simp_all add: field_def js_or_def normalized_def annual_plan_def)
  then have first: "create_deal (\<lambda>x. []) crm_up ?b =
     (\<lparr>status = JNum 201,
       json = JObj [(''id'', JStr ''9001''), (''properties'', annual_plan)]\<rparr>,
      [Call DealsCreate [JObj [(''properties'', annual_plan)]],
       Call DealsAssociationsCreate
         [JStr ''9001'', JStr ''contacts'', JStr ''12345'',
          JArr [JObj [(''associationCategory'', JStr ''HUBSPOT_DEFINED''),
                      (''associationTypeId'', JNum 3)]]]])"
    by (simp add: prod_eq_iff annual_plan_def)
  have dn': "truthy (field (field ?c ''dealProperties'') ''dealname'')"
    by (simp add: field_def annual_plan_def)
  have cid': "truthy (field ?c ''contactId'')"
    by (simp add: field_def)
  have cr': "crm_up [] (Call DealsCreate [JObj [(''properties'', field ?c ''dealProperties'')]]) = Inr ?r"
    by (simp add: field_def)
  have "snd (create_deal (\<lambda>x. []) crm_up ?c) =
      [Call DealsCreate [JObj [(''properties'', annual_plan)]],
       Call DealsAssociationsCreate
         [JStr ''9001'', JStr ''contacts'', JStr ''501'',
          JArr [JObj [(''associationCategory'', JStr ''HUBSPOT_DEFINED''),
                      (''associationTypeId'', JNum 3)]]]]"
    using create_deal_associates
      [where w = crm_up and req_body = ?c and r = ?r and number_text = "\<lambda>x. []",
       OF dn' cid' cr' nn]
    by (simp add: field_def js_or_def annual_plan_def)
  with first show ?thesis by simp
qed

text \<open>
  The claim as stated, for every request with a contact id, fails on a contact id that
  is an object with an own \<^verbatim>\<open>toString\<close> key: the deal is created, the coercion
  throws, no association call is made, and the response is 500.
\<close>

theorem create_deal_unprintable_counterexample:
  "truthy (field annual_plan ''dealname'')
   \<and> truthy (JObj [(''toString'', JStr ''x'')])
   \<and> crm_up [] (Call DealsCreate [JObj [(''properties'', annual_plan)]]) =
       Inr (JObj [(''id'', JStr ''9001''), (''properties'', annual_plan)])
   \<and> create_deal (\<lambda>x. []) crm_up
        (JObj [(''dealProperties'', annual_plan),
               (''contactId'', JObj [(''toString'', JStr ''x'')])]) =
       (\<lparr>status = JNum 500,
         json = JObj [(''error'', JStr ''Error creating deal or associating it with contact''),
                      (''details'', JStr ''Cannot convert object to primitive value'')]\<rparr>,
        [Call DealsCreate [JObj [(''properties'', annual_plan)]]])"
  using create_deal_created
    [where nt = "\<lambda>x. []" and w = crm_up
       and req_body = "JObj [(''dealProperties'', annual_plan),
                             (''contactId'', JObj [(''toString'', JStr ''x'')])]"
       and r = "JObj [(''id'', JStr ''9001''), (''properties'', annual_plan)]"]
  by (simp add: field_def annual_plan_def cannot_convert_response)

subsection \<open>Rejected calls\<close>

lemma tracked_ret: "tracked w (ret x)"
  by (simp add: tracked_def ret_def)

lemma tracked_lift: "tracked w (lift r)"
  by (auto simp add: tracked_def lift_def)

lemma tracked_await: "tracked w (await w c)"
  unfolding tracked_def await_def
proof (intro allI impI)
  fix made r made'
  assume "(w made c, made @ [c]) = (r, made')"
  then have r: "r = w made c" and l: "made' = made @ [c]" by simp_all
  have "Suc i = length made' \<and> r = Inl e"
    if "length made \<le> i \<and> i < length made' \<and> w (take i made') (made' ! i) = Inl e" for i e
  proof -
    from that l have "i = length made" by simp
    with that r l show ?thesis by simp
  qed
  with l show "(\<exists>cs. made' = made @ cs) \<and>
        (\<forall>i e. length made \<le> i \<and> i < length made' \<and> w (take i made') (made' ! i) = Inl e \<longrightarrow>
           Suc i = length made' \<and> r = Inl e)"
    by blast
qed

lemma trackedD:
  assumes "tracked w m" and "m made = (r, made')"
  shows "\<exists>cs. made' = made @ cs"
    and "length made \<le> i \<Longrightarrow> i < length made' \<Longrightarrow> w (take i made') (made' ! i) = Inl e \<Longrightarrow>
         Suc i = length made' \<and> r = Inl e"
  using assms(1) [unfolded tracked_def, rule_format, OF assms(2)] by simp_all

lemma tracked_bnd:
  assumes m: "tracked w m" and f: "\<And>x. tracked w (f x)"
  shows "tracked w (bnd m f)"
  unfolding tracked_def
proof (intro allI impI)
  fix made r made'
  assume run: "bnd m f made = (r, made')"
  obtain r1 made1 where m1: "m made = (r1, made1)" by (cases "m made")
  from trackedD(1) [OF m m1] obtain cs1 where l1: "made1 = made @ cs1" ..
  show "(\<exists>cs. made' = made @ cs) \<and>
        (\<forall>i e. length made \<le> i \<and> i < length made' \<and> w (take i made') (made' ! i) = Inl e \<longrightarrow>
           Suc i = length made' \<and> r = Inl e)"
  proof (cases r1)
    case (Inl e1)
    with run m1 have r: "r = Inl e1" and l: "made' = made1" by (simp_all add: bnd_def)
    have "Suc i = length made' \<and> r = Inl e"
      if "length made \<le> i \<and> i < length made' \<and> w (take i made') (made' ! i) = Inl e" for i e
    proof -
      from that l trackedD(2) [OF m m1, of i e]
      have "Suc i = length made1 \<and> r1 = Inl e" by simp
      with Inl r l show ?thesis by simp
    qed
    with l l1 show ?thesis by blast
  next
    case (Inr x)
    with run m1 have f1: "f x made1 = (r, made')" by (simp add: bnd_def)
    from trackedD(1) [OF f f1] obtain cs2 where l2: "made' = made1 @ cs2" ..
    have "Suc i = length made' \<and> r = Inl e"
      if "length made \<le> i \<and> i < length made' \<and> w (take i made') (made' ! i) = Inl e" for i e
    proof (cases "i < length made1")
      case True
      with l2 have "take i made' = take i made1" "made' ! i = made1 ! i"
        by (simp_all add: nth_append)
      with that True trackedD(2) [OF m m1, of i e] have "r1 = Inl e" by simp
      with Inr show ?thesis by simp
    next
      case False
      with that trackedD(2) [OF f f1, of i e] show ?thesis by simp
    qed
    moreover have "\<exists>cs. made' = made @ cs" using l1 l2 by simp
    ultimately show ?thesis by blast
  qed
qed

lemma tracked_if: "tracked w m \<Longrightarrow> tracked w n \<Longrightarrow> tracked w (if b then m else n)"
  by simp

lemma tracked_fetch_deals: "tracked w (fetch_deals w ids acc)"
  by (induction ids arbitrary: acc)
     (simp_all add: tracked_ret tracked_bnd tracked_await tracked_lift)

lemmas tracked_intros =
  tracked_bnd tracked_if tracked_ret tracked_lift tracked_await tracked_fetch_deals

lemma try_catch_failed:
  assumes "tracked w m" and "failed_with w (snd (try_catch m h)) err"
  shows "fst (try_catch m h) = h err"
proof -
  obtain r made where run: "m [] = (r, made)" by (cases "m []")
  then have "snd (try_catch m h) = made"
    by (simp add: try_catch_def split: sum.splits)
  with assms(2) obtain i where "i < length made" and "w (take i made) (made ! i) = Inl err"
    by (auto simp add: failed_with_def)
  with trackedD(2) [OF assms(1) run, of i err] have "r = Inl err" by simp
  with run show ?thesis by (simp add: try_catch_def)
qed

lemma list_contacts_failed:
  assumes "failed_with w (snd (list_contacts w)) err"
  shows "fst (list_contacts w) = handleHubSpotError err ''Error fetching contacts from HubSpot''"
  using assms unfolding list_contacts_def
  by (rule try_catch_failed [rotated]) (intro tracked_intros)

lemma list_deals_failed:
  assumes "failed_with w (snd (list_deals w)) err"
  shows "fst (list_deals w) = handleHubSpotError err ''Error fetching deals from HubSpot''"
  using assms unfolding list_deals_def
  by (rule try_catch_failed [rotated]) (intro tracked_intros)

lemma create_contact_failed:
  assumes "failed_with w (snd (create_contact w b)) err"
  shows "fst (create_contact w b) = handleHubSpotError err ''Error creating contact in HubSpot''"
  using assms unfolding create_contact_def
  by (rule try_catch_failed [rotated]) (intro tracked_intros)

lemma create_deal_failed:
  assumes "failed_with w (snd (create_deal nt w b)) err"
  shows "fst (create_deal nt w b) =
     handleHubSpotError err ''Error creating deal or associating it with contact''"
  using assms unfolding create_deal_def
  by (rule try_catch_failed [rotated]) (intro tracked_intros)

lemma list_deals_for_contact_failed:
  assumes "failed_with w (snd (list_deals_for_contact w c)) err"
  shows "fst (list_deals_for_contact w c) =
     handleHubSpotError err ''Error fetching deals for specific contact from HubSpot''"
  using assms unfolding list_deals_for_contact_def
  by (rule try_catch_failed [rotated]) (intro tracked_intros)

lemma tracked_summarize: "tracked w (summarize sf w c)"
  unfolding summarize_def getContactFromHubSpot_def getDealsForContactFromHubSpot_def
  by (intro tracked_intros)

lemma customer_summary_failed:
  assumes "failed_with w (snd (customer_summary sf oa w b)) err"
  shows "fst (customer_summary sf oa w b) = Inr (insight_failed err)"
proof -
  from assms have ne: "snd (customer_summary sf oa w b) \<noteq> []"
    by (auto simp add: failed_with_def)
  then have t: "truthy (field b ''contactId'')" and c: "oa \<noteq> None"
    by (auto simp add: customer_summary_def body_read split: if_splits)
  let ?t = "try_catch (summarize sf w (field b ''contactId'')) insight_failed"
  have eq: "customer_summary sf oa w b = (Inr (fst ?t), snd ?t)"
    using t c by (auto simp add: customer_summary_def body_read split: prod.splits)
  with assms have "failed_with w (snd ?t) err" by simp
  then have "fst ?t = insight_failed err"
    by (rule try_catch_failed [rotated]) (rule tracked_summarize)
  with eq show ?thesis by simp
qed

subsection \<open>The deals of a contact\<close>

lemma map_toObjectId_fields:
  "\<forall>x\<in>set rs. \<not> nullish x \<Longrightarrow>
   map_toObjectId rs = Inr (map (\<lambda>x. field x ''toObjectId'') rs)"
  by (induction rs) (simp_all add: thn_def get_prop_field)

lemma dealIds_of_results:
  assumes "\<not> nullish a"
    and "js_or (field a ''results'') (JArr []) = JArr rs"
    and "\<forall>x\<in>set rs. \<not> nullish x"
  shows "dealIds_of a = Inr (filter truthy (map (\<lambda>x. field x ''toObjectId'') rs))"
  using assms
  by (simp add: dealIds_of_def thn_def get_prop_field map_toObjectId_fields)

lemma fetch_deals_success:
  assumes "length ds = length ids"
    and "\<forall>i<length ids.
           w (made @ map (\<lambda>i. Call DealsGetById [i, deal_properties]) (take i ids))
             (Call DealsGetById [ids ! i, deal_properties]) = Inr (ds ! i)
           \<and> \<not> nullish (ds ! i)"
  shows "fetch_deals w ids acc made =
     (Inr (acc @ map normalized ds),
      made @ map (\<lambda>i. Call DealsGetById [i, deal_properties]) ids)"
  using assms
proof (induction ids arbitrary: ds acc made)
  case Nil
  then show ?case by (simp add: ret_def)
next
  case (Cons x ids)
  from Cons.prems(1) obtain d ds' where ds: "ds = d # ds'" and len: "length ds' = length ids"
    by (cases ds) simp_all
  from Cons.prems(2) [rule_format, of 0] ds
  have first: "w made (Call DealsGetById [x, deal_properties]) = Inr d" and nn: "\<not> nullish d"
    by simp_all
  have rest: "\<forall>i<length ids.
      w ((made @ [Call DealsGetById [x, deal_properties]])
           @ map (\<lambda>i. Call DealsGetById [i, deal_properties]) (take i ids))
        (Call DealsGetById [ids ! i, deal_properties]) = Inr (ds' ! i)
      \<and> \<not> nullish (ds' ! i)"
  proof (intro allI impI)
    fix i assume "i < length ids"
    with Cons.prems(2) [rule_format, of "Suc i"] ds
    show "w ((made @ [Call DealsGetById [x, deal_properties]])
           @ map (\<lambda>i. Call DealsGetById [i, deal_properties]) (take i ids))
        (Call DealsGetById [ids ! i, deal_properties]) = Inr (ds' ! i)
      \<and> \<not> nullish (ds' ! i)"
      by simp
  qed
  from Cons.IH [OF len rest, of "acc @ [normalized d]"] first nn ds
  show ?case
    by (simp add: bnd_def await_def lift_def id_properties_normalized)
qed

lemma fetched_Inr: "fetched w made c \<Longrightarrow> \<exists>d. w made c = Inr d \<and> \<not> nullish d"
  by (cases "w made c") (simp_all add: fetched_def)

lemma fetch_deals_calls:
  assumes "fetch_deals w ids acc made = (r, made')"
  shows "\<exists>n\<le>length ids.
      made' = made @ map (\<lambda>i. Call DealsGetById [i, deal_properties]) (take n ids)
      \<and> (ids \<noteq> [] \<longrightarrow> 0 < n)
      \<and> (\<forall>i. Suc i < n \<longrightarrow>
            fetched w (made @ map (\<lambda>i. Call DealsGetById [i, deal_properties]) (take i ids))
              (Call DealsGetById [ids ! i, deal_properties]))
      \<and> (\<forall>i. Suc i = n \<and> n < length ids \<longrightarrow>
            \<not> fetched w (made @ map (\<lambda>i. Call DealsGetById [i, deal_properties]) (take i ids))
              (Call DealsGetById [ids ! i, deal_properties]))"
  using assms
proof (induction ids arbitrary: acc made)
  case Nil
  then show ?case by (simp add: ret_def)
next
  case (Cons x ids)
  let ?F = "\<lambda>i. Call DealsGetById [i, deal_properties]"
  let ?c = "Call DealsGetById [x, deal_properties]"
  show ?case
  proof (cases "fetched w made ?c")
    case False
    have "made' = made @ [?c]"
    proof (cases "w made ?c")
      case (Inl e)
      with Cons.prems show ?thesis by (simp add: bnd_def await_def)
    next
      case (Inr d)
      with False have "nullish d" by (simp add: fetched_def)
      with Inr Cons.prems show ?thesis
        by (simp add: bnd_def await_def lift_def id_properties_nullish)
    qed
    with False show ?thesis by (intro exI [of _ 1]) simp
  next
    case True
    then obtain d where d: "w made ?c = Inr d" "\<not> nullish d"
      using fetched_Inr by blast
    with Cons.prems
    have "fetch_deals w ids (acc @ [normalized d]) (made @ [?c]) = (r, made')"
      by (simp add: bnd_def await_def lift_def id_properties_normalized)
    from Cons.IH [OF this] obtain n where n: "n \<le> length ids"
      and l: "made' = (made @ [?c]) @ map ?F (take n ids)"
      and pos: "ids \<noteq> [] \<longrightarrow> 0 < n"
      and before: "\<And>i. Suc i < n \<Longrightarrow>
            fetched w ((made @ [?c]) @ map ?F (take i ids)) (?F (ids ! i))"
      and last: "\<And>i. Suc i = n \<Longrightarrow> n < length ids \<Longrightarrow>
            \<not> fetched w ((made @ [?c]) @ map ?F (take i ids)) (?F (ids ! i))"
      by blast
    have 1: "made' = made @ map ?F (take (Suc n) (x # ids))"
      using l by simp
    have 2: "fetched w (made @ map ?F (take i (x # ids))) (?F ((x # ids) ! i))"
      if "Suc i < Suc n" for i
    proof (cases i)
      case 0
      with True show ?thesis by simp
    next
      case (Suc j)
      with that before [of j] show ?thesis by simp
    qed
    have 3: "\<not> fetched w (made @ map ?F (take i (x # ids))) (?F ((x # ids) ! i))"
      if "Suc i = Suc n" "Suc n < length (x # ids)" for i
    proof (cases i)
      case 0
      with that pos show ?thesis by auto
    next
      case (Suc j)
      with that have "Suc j = n" and "n < length ids" by simp_all
      then have "\<not> fetched w ((made @ [?c]) @ map ?F (take j ids)) (?F (ids ! j))"
        by (rule last)
      with Suc show ?thesis by simp
    qed
    from n 1 2 3 show ?thesis
      by (intro exI [of _ "Suc n"]) (simp del: take_Suc_Cons nth_Cons_Suc)
  qed
qed

lemma list_deals_for_contact_run:
  assumes "w [] (Call ContactsAssociationsGetAll [JStr c, JStr ''deals'']) = Inr a"
    and "dealIds_of a = Inr ids"
  shows "list_deals_for_contact w c =
     (if ids = []
      then (ok (JObj [(''results'', JArr [])]),
            [Call ContactsAssociationsGetAll [JStr c, JStr ''deals'']])
      else (case fetch_deals w ids [] [Call ContactsAssociationsGetAll [JStr c, JStr ''deals'']] of
              (Inl e, made) \<Rightarrow>
                (handleHubSpotError e ''Error fetching deals for specific contact from HubSpot'',
                 made)
            | (Inr deals, made) \<Rightarrow> (ok (JObj [(''results'', JArr deals)]), made)))"
  using assms
  by (simp add: list_deals_for_contact_def act_defs split: prod.splits sum.splits)

text \<open>
  Claim C2. In the list-deals-for-contact handler, when the association lookup resolves
  with \<open>a\<close> whose \<^verbatim>\<open>results\<close> (or the empty list in their place) are the
  association results \<open>rs\<close>, the deal ids are the \<^verbatim>\<open>toObjectId\<close> values of \<open>rs\<close>,
  in order, without the falsy ones. With no deal id left the response is
  \<^verbatim>\<open>{results: []}\<close> and the lookup is the only call made. The fetches are made one
  at a time: the calls after the lookup are fetches of an initial segment of the deal
  ids, one per id and in their order; every fetch but the last one made had resolved
  with a deal, on the calls made before it, when the next was made; and the fetches end
  before the last id only when the last one made was rejected or gave no deal. When
  each fetch, made after the fetches of the ids before it, resolves with a deal, the
  response lists the normalized records of these deals in the order of the ids.
\<close>

theorem list_deals_for_contact_sequential:
  fixes w :: world and contactId :: string and a :: jsval and rs ds :: "jsval list"
  defines "lookup \<equiv> Call ContactsAssociationsGetAll [JStr contactId, JStr ''deals'']"
    and "fetch \<equiv> \<lambda>i. Call DealsGetById [i, deal_properties]"
    and "dealIds \<equiv> filter truthy (map (\<lambda>x. field x ''toObjectId'') rs)"
  assumes "w [] lookup = Inr a"
    and "\<not> nullish a"
    and "js_or (field a ''results'') (JArr []) = JArr rs"
    and "\<forall>x\<in>set rs. \<not> nullish x"
  shows "(dealIds = [] \<longrightarrow>
            list_deals_for_contact w contactId =
              (\<lparr>status = JNum 200, json = JObj [(''results'', JArr [])]\<rparr>, [lookup]))
       \<and> (\<exists>n\<le>length dealIds.
            snd (list_deals_for_contact w contactId) = lookup # map fetch (take n dealIds)
            \<and> (dealIds \<noteq> [] \<longrightarrow> 0 < n)
            \<and> (\<forall>i. Suc i < n \<longrightarrow>
                  fetched w (lookup # map fetch (take i dealIds)) (fetch (dealIds ! i)))
            \<and> (\<forall>i. Suc i = n \<and> n < length dealIds \<longrightarrow>
                  \<not> fetched w (lookup # map fetch (take i dealIds)) (fetch (dealIds ! i))))
       \<and> (length ds = length dealIds
            \<and> (\<forall>i<length dealIds.
                  w (lookup # map fetch (take i dealIds)) (fetch (dealIds ! i)) = Inr (ds ! i)
                  \<and> \<not> nullish (ds ! i)) \<longrightarrow>
            list_deals_for_contact w contactId =
              (\<lparr>status = JNum 200, json = JObj [(''results'', JArr (map normalized ds))]\<rparr>,
               lookup # map fetch dealIds))"
proof -
  have ids: "dealIds_of a = Inr dealIds"
    unfolding dealIds_def using assms(5-7) by (rule dealIds_of_results)
  note run = list_deals_for_contact_run
    [where w = w, OF assms(4) [unfolded lookup_def] ids, folded lookup_def]
  have empty: "dealIds = [] \<longrightarrow>
            list_deals_for_contact w contactId =
              (\<lparr>status = JNum 200, json = JObj [(''results'', JArr [])]\<rparr>, [lookup])"
    using run by (simp add: ok_def)
  have one_at_a_time: "\<exists>n\<le>length dealIds.
            snd (list_deals_for_contact w contactId) = lookup # map fetch (take n dealIds)
            \<and> (dealIds \<noteq> [] \<longrightarrow> 0 < n)
            \<and> (\<forall>i. Suc i < n \<longrightarrow>
                  fetched w (lookup # map fetch (take i dealIds)) (fetch (dealIds ! i)))
            \<and> (\<forall>i. Suc i = n \<and> n < length dealIds \<longrightarrow>
                  \<not> fetched w (lookup # map fetch (take i dealIds)) (fetch (dealIds ! i)))"
  proof (cases "dealIds = []")
    case True
    with run show ?thesis by simp
  next
    case False
    obtain r made where f: "fetch_deals w dealIds [] [lookup] = (r, made)"
      by (cases "fetch_deals w dealIds [] [lookup]")
    from run False f have "snd (list_deals_for_contact w contactId) = made"
      by (simp split: sum.splits)
    with fetch_deals_calls [where w = w, OF f] show ?thesis
      by (simp add: fetch_def)
  qed
  have success: "list_deals_for_contact w contactId =
              (\<lparr>status = JNum 200, json = JObj [(''results'', JArr (map normalized ds))]\<rparr>,
               lookup # map fetch dealIds)"
    if len: "length ds = length dealIds"
      and all: "\<forall>i<length dealIds.
                  w (lookup # map fetch (take i dealIds)) (fetch (dealIds ! i)) = Inr (ds ! i)
                  \<and> \<not> nullish (ds ! i)"
  proof -
    from all have "\<forall>i<length dealIds.
           w ([lookup] @ map (\<lambda>i. Call DealsGetById [i, deal_properties]) (take i dealIds))
             (Call DealsGetById [dealIds ! i, deal_properties]) = Inr (ds ! i)
           \<and> \<not> nullish (ds ! i)"
      by (simp add: fetch_def)
    from fetch_deals_success [where w = w and acc = "[]", OF len this]
    have f: "fetch_deals w dealIds [] [lookup] =
        (Inr (map normalized ds), lookup # map fetch dealIds)"
      by (simp add: fetch_def)
    show ?thesis
    proof (cases "dealIds = []")
      case True
      with len run show ?thesis by (simp add: ok_def)
    next
      case False
      with run f show ?thesis by (simp add: ok_def)
    qed
  qed
  from empty one_at_a_time success show ?thesis by blast
qed

theorem list_deals_for_contact_sequential_witness:
  "list_deals_for_contact crm_up ''501'' =
     (\<lparr>status = JNum 200,
       json = JObj [(''results'',
         JArr [JObj [(''id'', JStr ''9001''), (''properties'', annual_plan)],
               JObj [(''id'', JStr ''9002''), (''properties'', annual_plan)]])]\<rparr>,
      [Call ContactsAssociationsGetAll [JStr ''501'', JStr ''deals''],
       Call DealsGetById [JStr ''9001'', deal_properties],
       Call DealsGetById [JStr ''9002'', deal_properties]])
   \<and> snd (list_deals_for_contact crm_no_fetch ''501'') =
      [Call ContactsAssociationsGetAll [JStr ''501'', JStr ''deals''],
       Call DealsGetById [JStr ''9001'', deal_properties]]"
proof -
  let ?a = "JObj [(''results'', JArr [JObj [(''toObjectId'', JStr ''9001'')],
                                     JObj [(''toObjectId'', JStr [])],
                                     JObj [(''toObjectId'', JStr ''9002'')]])]"
  let ?rs = "[JObj [(''toObjectId'', JStr ''9001'')], JObj [(''toObjectId'', JStr [])],
              JObj [(''toObjectId'', JStr ''9002'')]]"
  let ?ds = "[JObj [(''id'', JStr ''9001''), (''properties'', annual_plan)],
              JObj [(''id'', JStr ''9002''), (''properties'', annual_plan)]]"
  have ids: "filter truthy (map (\<lambda>x. field x ''toObjectId'') ?rs) = [JStr ''9001'', JStr ''9002'']"
    by (simp add: field_def)
  have h1: "crm_up [] (Call ContactsAssociationsGetAll [JStr ''501'', JStr ''deals'']) = Inr ?a"
    by simp
  have h2: "\<not> nullish ?a" by simp
  have h3: "js_or (field ?a ''results'') (JArr []) = JArr ?rs"
    by (simp add: field_def js_or_def)
  have h4: "\<forall>x\<in>set ?rs. \<not> nullish x" by simp
  have h5: "length ?ds = length (filter truthy (map (\<lambda>x. field x ''toObjectId'') ?rs))"
    unfolding ids by simp
  have h6: "\<forall>i<length (filter truthy (map (\<lambda>x. field x ''toObjectId'') ?rs)).
      crm_up (Call ContactsAssociationsGetAll [JStr ''501'', JStr ''deals''] #
              map (\<lambda>i. Call DealsGetById [i, deal_properties])
                (take i (filter truthy (map (\<lambda>x. field x ''toObjectId'') ?rs))))
        (Call DealsGetById [filter truthy (map (\<lambda>x. field x ''toObjectId'') ?rs) ! i,
                            deal_properties]) = Inr (?ds ! i)
      \<and> \<not> nullish (?ds ! i)"
    unfolding ids by (simp add: less_Suc_eq annual_plan_def)
  from list_deals_for_contact_sequential
    [where w = crm_up and contactId = "''501''" and a = ?a and rs = ?rs and ds = ?ds,
     OF h1 h2 h3 h4] h5 h6
  have all: "list_deals_for_contact crm_up ''501'' =
     (\<lparr>status = JNum 200,
       json = JObj [(''results'',
         JArr [JObj [(''id'', JStr ''9001''), (''properties'', annual_plan)],
               JObj [(''id'', JStr ''9002''), (''properties'', annual_plan)]])]\<rparr>,
      [Call ContactsAssociationsGetAll [JStr ''501'', JStr ''deals''],
       Call DealsGetById [JStr ''9001'', deal_properties],
       Call DealsGetById [JStr ''9002'', deal_properties]])"
    unfolding ids by (simp add: normalized_def field_def js_or_def annual_plan_def)
  have g1: "crm_no_fetch [] (Call ContactsAssociationsGetAll [JStr ''501'', JStr ''deals'']) = Inr ?a"
    by simp
  note stop = list_deals_for_contact_sequential
    [where w = crm_no_fetch and contactId = "''501''" and a = ?a and rs = ?rs,
     OF g1 h2 h3 h4, unfolded ids, THEN conjunct2, THEN conjunct1]
  from stop obtain n where
    calls: "snd (list_deals_for_contact crm_no_fetch ''501'') =
      Call ContactsAssociationsGetAll [JStr ''501'', JStr ''deals'']
        # map (\<lambda>i. Call DealsGetById [i, deal_properties]) (take n [JStr ''9001'', JStr ''9002''])"
    and pos: "[JStr ''9001'', JStr ''9002''] \<noteq> [] \<longrightarrow> 0 < n"
    and before: "\<forall>i. Suc i < n \<longrightarrow>
      fetched crm_no_fetch
        (Call ContactsAssociationsGetAll [JStr ''501'', JStr ''deals'']
           # map (\<lambda>i. Call DealsGetById [i, deal_properties])
               (take i [JStr ''9001'', JStr ''9002'']))
        (Call DealsGetById [[JStr ''9001'', JStr ''9002''] ! i, deal_properties])"
    by blast
  have "\<not> fetched crm_no_fetch [Call ContactsAssociationsGetAll [JStr ''501'', JStr ''deals'']]
          (Call DealsGetById [JStr ''9001'', deal_properties])"
    by (simp add: fetched_def)
  with before [rule_format, of 0] have "\<not> Suc 0 < n" by auto
  with pos have "n = 1" by simp
  with calls have "snd (list_deals_for_contact crm_no_fetch ''501'') =
      [Call ContactsAssociationsGetAll [JStr ''501'', JStr ''deals''],
       Call DealsGetById [JStr ''9001'', deal_properties]]"
    by simp
  with all show ?thesis by simp
qed

subsection \<open>Responses to rejected calls\<close>

text \<open>
  Claim C5, as the code has it. In the five CRM handlers, when a call that the handler
  made was rejected with \<open>err\<close>, the response is the one of \<^verbatim>\<open>handleHubSpotError\<close>: its
  status is the \<^verbatim>\<open>statusCode\<close> of the error when that is truthy and 500 otherwise,
  and its body holds the context message of the handler and, as details, the body of the
  error's response, else the error's message, else a fixed text. The customer-summary
  handler has a catch block of its own: its status is always 500, its message is fixed,
  and its details are the error's message or else the error itself.
\<close>

theorem upstream_error_response:
  "(failed_with w (snd (list_contacts w)) err \<longrightarrow>
      fst (list_contacts w) = handleHubSpotError err ''Error fetching contacts from HubSpot'')
   \<and> (failed_with w (snd (create_contact w req_body)) err \<longrightarrow>
      fst (create_contact w req_body) =
        handleHubSpotError err ''Error creating contact in HubSpot'')
   \<and> (failed_with w (snd (list_deals w)) err \<longrightarrow>
      fst (list_deals w) = handleHubSpotError err ''Error fetching deals from HubSpot'')
   \<and> (failed_with w (snd (create_deal number_text w req_body)) err \<longrightarrow>
      fst (create_deal number_text w req_body) =
        handleHubSpotError err ''Error creating deal or associating it with contact'')
   \<and> (failed_with w (snd (list_deals_for_contact w contactId)) err \<longrightarrow>
      fst (list_deals_for_contact w contactId) =
        handleHubSpotError err ''Error fetching deals for specific contact from HubSpot'')
   \<and> (failed_with w (snd (customer_summary stringify openai w req_body)) err \<longrightarrow>
      fst (customer_summary stringify openai w req_body) =
        Inr \<lparr>status = JNum 500,
             json = JObj [(''error'', JStr ''Failed to generate AI insight''),
                          (''details'', js_or (field err ''message'') err)]\<rparr>)
   \<and> handleHubSpotError err message =
        \<lparr>status = js_or (field err ''statusCode'') (JNum 500),
         json = JObj [(''error'', JStr message),
                      (''details'',
                       js_or (field (field err ''response'') ''body'')
                         (js_or (field err ''message'') (JStr ''Unknown HubSpot error'')))]\<rparr>"
proof -
  have "fst (customer_summary stringify openai w req_body) =
        Inr \<lparr>status = JNum 500,
             json = JObj [(''error'', JStr ''Failed to generate AI insight''),
                          (''details'', js_or (field err ''message'') err)]\<rparr>"
    if "failed_with w (snd (customer_summary stringify openai w req_body)) err"
    using customer_summary_failed [OF that] by (simp add: insight_failed_def opt_get_field)
  moreover have "handleHubSpotError err message =
        \<lparr>status = js_or (field err ''statusCode'') (JNum 500),
         json = JObj [(''error'', JStr message),
                      (''details'',
                       js_or (field (field err ''response'') ''body'')
                         (js_or (field err ''message'') (JStr ''Unknown HubSpot error'')))]\<rparr>"
    by (simp add: handleHubSpotError_def opt_get_field)
  ultimately show ?thesis
    using list_contacts_failed [of w err] create_contact_failed [of w req_body err]
      list_deals_failed [of w err]
      create_deal_failed [where w = w and nt = number_text and b = req_body and err = err]
      list_deals_for_contact_failed [of w contactId err]
    by blast
qed

theorem upstream_error_response_witness:
  "failed_with crm_down (snd (list_deals_for_contact crm_down ''501'')) not_found
   \<and> list_deals_for_contact crm_down ''501'' =
       (\<lparr>status = JNum 404,
         json = JObj [(''error'',
                       JStr ''Error fetching deals for specific contact from HubSpot''),
                      (''details'', JObj [(''category'', JStr ''OBJECT_NOT_FOUND'')])]\<rparr>,
        [Call ContactsAssociationsGetAll [JStr ''501'', JStr ''deals'']])
   \<and> fst (create_deal (\<lambda>x. []) crm_no_assoc
            (JObj [(''dealProperties'', annual_plan), (''contactId'', JStr ''501'')])) =
       \<lparr>status = JNum 500,
        json = JObj [(''error'', JStr ''Error creating deal or associating it with contact''),
                     (''details'', JStr ''socket hang up'')]\<rparr>"
proof -
  let ?b = "JObj [(''dealProperties'', annual_plan), (''contactId'', JStr ''501'')]"
  let ?e = "JObj [(''message'', JStr ''socket hang up'')]"
  have l: "snd (list_deals_for_contact crm_down ''501'') =
             [Call ContactsAssociationsGetAll [JStr ''501'', JStr ''deals'']]"
    by (simp add: list_deals_for_contact_def act_defs crm_down_def)
  then have f: "failed_with crm_down (snd (list_deals_for_contact crm_down ''501'')) not_found"
    by (simp add: failed_with_def crm_down_def)
  from upstream_error_response
    [where w = crm_down and err = not_found and contactId = "''501''"
       and message = "''Error fetching deals for specific contact from HubSpot''"] f
  have r: "fst (list_deals_for_contact crm_down ''501'') =
       \<lparr>status = JNum 404,
         json = JObj [(''error'',
                       JStr ''Error fetching deals for specific contact from HubSpot''),
                      (''details'', JObj [(''category'', JStr ''OBJECT_NOT_FOUND'')])]\<rparr>"
    by (simp add: not_found_def field_def js_or_def)
  have l2: "snd (create_deal (\<lambda>x. []) crm_no_assoc ?b) =
      [Call DealsCreate [JObj [(''properties'', annual_plan)]],
       Call DealsAssociationsCreate
         [JStr ''9001'', JStr ''contacts'', JStr ''501'', associationSpec]]"
    using create_deal_created
      [where w = crm_no_assoc and req_body = ?b and nt = "\<lambda>x. []"
         and r = "JObj [(''id'', JStr ''9001''), (''properties'', annual_plan)]"]
    by (simp add: field_def annual_plan_def js_or_def)
  have f2: "failed_with crm_no_assoc (snd (create_deal (\<lambda>x. []) crm_no_assoc ?b)) ?e"
    unfolding failed_with_def l2 by (intro exI [of _ 1]) simp
  from upstream_error_response
    [where w = crm_no_assoc and err = ?e and req_body = ?b and number_text = "\<lambda>x. []"
       and message = "''Error creating deal or associating it with contact''"] f2
  have r2: "fst (create_deal (\<lambda>x. []) crm_no_assoc ?b) =
       \<lparr>status = JNum 500,
        json = JObj [(''error'', JStr ''Error creating deal or associating it with contact''),
                     (''details'', JStr ''socket hang up'')]\<rparr>"
    by (simp add: field_def js_or_def)
  from l f r r2 show ?thesis by (simp add: prod_eq_iff)
qed

text \<open>
  The claim as stated, for every handler, fails on the customer-summary handler: the
  rejection of the contact fetch carries the status 404 and a response body, and the
  handler answers 500 with the error's message as details.
\<close>

theorem customer_summary_status_counterexample:
  "failed_with crm_down
     (snd (customer_summary (\<lambda>v. []) (Some (OpenAI ''sk-test'')) crm_down
             (JObj [(''contactId'', JStr ''501'')])))
     not_found
   \<and> field not_found ''statusCode'' = JNum 404
   \<and> field (field not_found ''response'') ''body'' =
       JObj [(''category'', JStr ''OBJECT_NOT_FOUND'')]
   \<and> customer_summary (\<lambda>v. []) (Some (OpenAI ''sk-test'')) crm_down
        (JObj [(''contactId'', JStr ''501'')]) =
       (Inr \<lparr>status = JNum 500,
             json = JObj [(''error'', JStr ''Failed to generate AI insight''),
                          (''details'', JStr ''HTTP request failed'')]\<rparr>,
        [Call ContactsGetById [JStr ''501'', contact_properties]])"
  by (simp add: customer_summary_def summarize_def getContactFromHubSpot_def act_defs
      body_read field_def crm_down_def failed_with_def not_found_def insight_failed_def
      opt_get_def js_or_def get_prop_def)

subsection \<open>Creating a deal\<close>

text \<open>
  Claim C4, as the code has it. The server has one create-deal operation, and it is not
  standalone: it requires \<^verbatim>\<open>contactId\<close> besides \<^verbatim>\<open>dealProperties.dealname\<close>
  and answers 400, with no call made, when either is missing. With both present, once
  the external creation has resolved with the deal, the association call is made
  whenever \<^verbatim>\<open>String(contactId)\<close> gives a string, which it does unless the contact
  id is an object with an own \<^verbatim>\<open>toString\<close> key or an array that holds one; the
  response is then 201 with the normalized record when the association resolves, and
  the error response when it is rejected. When the coercion throws, the deal stays
  created, no association call is made, and the response is the error response for the
  \<^verbatim>\<open>TypeError\<close>.
\<close>

theorem create_deal_always_associates:
  fixes number_text :: "real \<Rightarrow> string" and w :: world and req_body r :: jsval
  defines "dealProperties \<equiv> field req_body ''dealProperties''"
    and "contactId \<equiv> field req_body ''contactId''"
  defines "creation \<equiv> Call DealsCreate [JObj [(''properties'', dealProperties)]]"
    and "association \<equiv> \<lambda>s.
      Call DealsAssociationsCreate
        [js_or (field r ''id'') (field (field r ''body'') ''id''),
         JStr ''contacts'', JStr s, associationSpec]"
  shows "(\<not> truthy (field dealProperties ''dealname'') \<longrightarrow>
            create_deal number_text w req_body =
              (\<lparr>status = JNum 400,
                json = JObj [(''error'', JStr ''dealProperties.dealname is required'')]\<rparr>, []))
       \<and> (truthy (field dealProperties ''dealname'') \<and> \<not> truthy contactId \<longrightarrow>
            create_deal number_text w req_body =
              (\<lparr>status = JNum 400,
                json = JObj [(''error'',
                              JStr ''contactId is required to associate the deal'')]\<rparr>, []))
       \<and> (truthy (field dealProperties ''dealname'') \<and> truthy contactId
            \<and> w [] creation = Inr r \<and> \<not> nullish r \<longrightarrow>
            (\<not> unprintable contactId \<longrightarrow> (\<exists>s. js_String number_text contactId = Inr s))
            \<and> (\<forall>s. js_String number_text contactId = Inr s \<longrightarrow>
                  snd (create_deal number_text w req_body) = [creation, association s]
                  \<and> (\<forall>a. w [creation] (association s) = Inr a \<longrightarrow>
                        fst (create_deal number_text w req_body) =
                          \<lparr>status = JNum 201, json = normalized r\<rparr>)
                  \<and> (\<forall>e. w [creation] (association s) = Inl e \<longrightarrow>
                        fst (create_deal number_text w req_body) =
                          handleHubSpotError e
                            ''Error creating deal or associating it with contact''))
            \<and> (unprintable contactId \<longrightarrow>
                  create_deal number_text w req_body =
                    (handleHubSpotError cannot_convert
                       ''Error creating deal or associating it with contact'',
                     [creation])))"
proof -
  have "(\<not> unprintable contactId \<longrightarrow> (\<exists>s. js_String number_text contactId = Inr s))
            \<and> (\<forall>s. js_String number_text contactId = Inr s \<longrightarrow>
                  snd (create_deal number_text w req_body) = [creation, association s]
                  \<and> (\<forall>a. w [creation] (association s) = Inr a \<longrightarrow>
                        fst (create_deal number_text w req_body) =
                          \<lparr>status = JNum 201, json = normalized r\<rparr>)
                  \<and> (\<forall>e. w [creation] (association s) = Inl e \<longrightarrow>
                        fst (create_deal number_text w req_body) =
                          handleHubSpotError e
                            ''Error creating deal or associating it with contact''))
            \<and> (unprintable contactId \<longrightarrow>
                  create_deal number_text w req_body =
                    (handleHubSpotError cannot_convert
                       ''Error creating deal or associating it with contact'',
                     [creation]))"
    if "truthy (field dealProperties ''dealname'')" "truthy contactId"
      "w [] creation = Inr r" "\<not> nullish r"
  proof -
    note run = create_deal_created
      [where w = w and nt = number_text, OF that(1,2) [unfolded dealProperties_def contactId_def]
         that(3) [unfolded creation_def dealProperties_def] that(4),
       folded dealProperties_def contactId_def, folded creation_def]
    have "snd (create_deal number_text w req_body) = [creation, association s]
                  \<and> (\<forall>a. w [creation] (association s) = Inr a \<longrightarrow>
                        fst (create_deal number_text w req_body) =
                          \<lparr>status = JNum 201, json = normalized r\<rparr>)
                  \<and> (\<forall>e. w [creation] (association s) = Inl e \<longrightarrow>
                        fst (create_deal number_text w req_body) =
                          handleHubSpotError e
                            ''Error creating deal or associating it with contact'')"
      if "js_String number_text contactId = Inr s" for s
      using run that by (simp add: association_def)
    moreover have "create_deal number_text w req_body =
                    (handleHubSpotError cannot_convert
                       ''Error creating deal or associating it with contact'',
                     [creation])"
      if "unprintable contactId"
      using run js_String_unprintable [OF that, of number_text] by simp
    ultimately show ?thesis
      using js_String_printable [of contactId number_text] by blast
  qed
  moreover have "create_deal number_text w req_body =
              (\<lparr>status = JNum 400,
                json = JObj [(''error'', JStr ''dealProperties.dealname is required'')]\<rparr>, [])"
    if "\<not> truthy (field dealProperties ''dealname'')"
    using that unfolding dealProperties_def
    by (simp add: create_deal_def act_defs body_read lacks_field bad_request_def error_only_def)
  moreover have "create_deal number_text w req_body =
              (\<lparr>status = JNum 400,
                json = JObj [(''error'',
                              JStr ''contactId is required to associate the deal'')]\<rparr>, [])"
    if "truthy (field dealProperties ''dealname'')" "\<not> truthy contactId"
    using that unfolding dealProperties_def contactId_def
    by (simp add: create_deal_def act_defs body_read lacks_field bad_request_def error_only_def)
  ultimately show ?thesis by blast
qed

theorem create_deal_always_associates_witness:
  "create_deal (\<lambda>x. []) crm_up (JObj [(''dealProperties'', annual_plan)]) =
     (\<lparr>status = JNum 400,
       json = JObj [(''error'', JStr ''contactId is required to associate the deal'')]\<rparr>, [])
   \<and> create_deal (\<lambda>x. []) crm_no_assoc
        (JObj [(''dealProperties'', annual_plan), (''contactId'', JStr ''501'')]) =
     (\<lparr>status = JNum 500,
       json = JObj [(''error'', JStr ''Error creating deal or associating it with contact''),
                    (''details'', JStr ''socket hang up'')]\<rparr>,
      [Call DealsCreate [JObj [(''properties'', annual_plan)]],
       Call DealsAssociationsCreate
         [JStr ''9001'', JStr ''contacts'', JStr ''501'', associationSpec]])
   \<and> create_deal (\<lambda>x. []) crm_up
        (JObj [(''dealProperties'', annual_plan),
               (''contactId'', JArr [JObj [(''toString'', JNull)]])]) =
     (\<lparr>status = JNum 500,
       json = JObj [(''error'', JStr ''Error creating deal or associating it with contact''),
                    (''details'', JStr ''Cannot convert object to primitive value'')]\<rparr>,
      [Call DealsCreate [JObj [(''properties'', annual_plan)]]])"
proof -
  let ?b = "JObj [(''dealProperties'', annual_plan), (''contactId'', JStr ''501'')]"
  let ?u = "JObj [(''dealProperties'', annual_plan),
                  (''contactId'', JArr [JObj [(''toString'', JNull)]])]"
  let ?r = "JObj [(''id'', JStr ''9001''), (''properties'', annual_plan)]"
  have first: "create_deal (\<lambda>x. []) crm_up (JObj [(''dealProperties'', annual_plan)]) =
     (\<lparr>status = JNum 400,
       json = JObj [(''error'', JStr ''contactId is required to associate the deal'')]\<rparr>, [])"
    using create_deal_always_associates
      [where w = crm_up and req_body = "JObj [(''dealProperties'', annual_plan)]"
         and number_text = "\<lambda>x. []"]
    by (simp add: field_def annual_plan_def)
  have "snd (create_deal (\<lambda>x. []) crm_no_assoc ?b) =
      [Call DealsCreate [JObj [(''properties'', annual_plan)]],
       Call DealsAssociationsCreate
         [JStr ''9001'', JStr ''contacts'', JStr ''501'', associationSpec]]"
    and "fst (create_deal (\<lambda>x. []) crm_no_assoc ?b) =
      handleHubSpotError (JObj [(''message'', JStr ''socket hang up'')])
        ''Error creating deal or associating it with contact''"
    using create_deal_always_associates
      [where w = crm_no_assoc and req_body = ?b and r = ?r and number_text = "\<lambda>x. []"]
    by (simp_all add: field_def annual_plan_def js_or_def)
  then have second: "create_deal (\<lambda>x. []) crm_no_assoc ?b =
     (\<lparr>status = JNum 500,
       json = JObj [(''error'', JStr ''Error creating deal or associating it with contact''),
                    (''details'', JStr ''socket hang up'')]\<rparr>,
      [Call DealsCreate [JObj [(''properties'', annual_plan)]],
       Call DealsAssociationsCreate
         [JStr ''9001'', JStr ''contacts'', JStr ''501'', associationSpec]])"
    by (simp add: prod_eq_iff handleHubSpotError_def opt_get_def js_or_def)
  have third: "create_deal (\<lambda>x. []) crm_up ?u =
     (\<lparr>status = JNum 500,
       json = JObj [(''error'', JStr ''Error creating deal or associating it with contact''),
                    (''details'', JStr ''Cannot convert object to primitive value'')]\<rparr>,
      [Call DealsCreate [JObj [(''properties'', annual_plan)]]])"
    using create_deal_always_associates
      [where w = crm_up and req_body = ?u and r = ?r and number_text = "\<lambda>x. []"]
    by (simp add: field_def annual_plan_def cannot_convert_response)
  from first second third show ?thesis by simp
qed

text \<open>
  The claim as stated fails on a request with a deal name and no contact id: the handler
  answers 400 and creates nothing.
\<close>

theorem standalone_create_deal_counterexample:
  "truthy (field (field (JObj [(''dealProperties'', annual_plan)]) ''dealProperties'') ''dealname'')
   \<and> create_deal (\<lambda>x. []) crm_up (JObj [(''dealProperties'', annual_plan)]) =
     (\<lparr>status = JNum 400,
       json = JObj [(''error'', JStr ''contactId is required to associate the deal'')]\<rparr>, [])"
  by (simp add: create_deal_def act_defs body_read lacks_field bad_request_def error_only_def
      field_def annual_plan_def)

subsection \<open>The shape of returned records\<close>

lemma string_truthy: "is_string v \<Longrightarrow> v \<noteq> JStr [] \<Longrightarrow> truthy v"
  by (cases v) simp_all

lemma string_map_truthy: "string_map v \<Longrightarrow> truthy v"
  by (cases v) simp_all

lemma canonical_pair:
  "canonical (JObj [(''id'', i), (''properties'', ps)]) = (is_string i \<and> string_map ps)"
  by (simp add: canonical_def field_def)

lemma normalized_top_level:
  assumes "top_level_variant r"
  shows "normalized r = JObj [(''id'', field r ''id''), (''properties'', field r ''properties'')]"
    and "canonical (normalized r)"
proof -
  from assms have "truthy (field r ''id'')" "truthy (field r ''properties'')"
    by (simp_all add: top_level_variant_def canonical_def string_truthy string_map_truthy)
  then show n: "normalized r =
      JObj [(''id'', field r ''id''), (''properties'', field r ''properties'')]"
    by (simp add: normalized_def js_or_def)
  from assms show "canonical (normalized r)"
    unfolding n canonical_pair by (simp add: top_level_variant_def canonical_def)
qed

lemma normalized_body:
  assumes "body_variant r"
  shows "normalized r = normalized (field r ''body'')"
    and "canonical (normalized r)"
proof -
  from assms have top: "top_level_variant (field r ''body'')"
    and none: "field r ''id'' = JUndefined" "field r ''properties'' = JUndefined"
    by (simp_all add: body_variant_def)
  from none normalized_top_level(1) [OF top]
  show n: "normalized r = normalized (field r ''body'')"
    by (simp add: normalized_def js_or_def)
  from normalized_top_level(2) [OF top] show "canonical (normalized r)"
    unfolding n .
qed

lemma create_contact_created:
  assumes "truthy (field (field req_body ''properties'') ''email'')"
    and "w [] (Call ContactsCreate [JObj [(''properties'', field req_body ''properties'')]]) = Inr r"
    and "\<not> nullish r"
  shows "create_contact w req_body =
     (\<lparr>status = JNum 201, json = normalized r\<rparr>,
      [Call ContactsCreate [JObj [(''properties'', field req_body ''properties'')]]])"
  using assms
  by (simp add: create_contact_def act_defs body_read lacks_field id_properties_normalized)

lemma list_contacts_run:
  assumes "w [] (Call ContactsGetPage (page_args contact_properties)) = Inr page"
    and "extractListResults page = Inr items"
  shows "list_contacts w =
     (\<lparr>status = JNum 200, json = JObj [(''results'', JArr items)]\<rparr>,
      [Call ContactsGetPage (page_args contact_properties)])"
  using assms by (simp add: list_contacts_def act_defs ok_def)

lemma list_deals_run:
  assumes "w [] (Call DealsGetPage (page_args deal_properties)) = Inr page"
    and "extractListResults page = Inr items"
  shows "list_deals w =
     (\<lparr>status = JNum 200, json = JObj [(''results'', JArr items)]\<rparr>,
      [Call DealsGetPage (page_args deal_properties)])"
  using assms by (simp add: list_deals_def act_defs ok_def)

lemma list_deals_for_contact_fetched:
  assumes "w [] (Call ContactsAssociationsGetAll [JStr c, JStr ''deals'']) = Inr a"
    and "dealIds_of a = Inr ids"
    and "length ds = length ids"
    and "\<forall>i<length ids.
           w (Call ContactsAssociationsGetAll [JStr c, JStr ''deals'']
                # map (\<lambda>i. Call DealsGetById [i, deal_properties]) (take i ids))
             (Call DealsGetById [ids ! i, deal_properties]) = Inr (ds ! i)
           \<and> \<not> nullish (ds ! i)"
  shows "list_deals_for_contact w c =
     (\<lparr>status = JNum 200, json = JObj [(''results'', JArr (map normalized ds))]\<rparr>,
      Call ContactsAssociationsGetAll [JStr c, JStr ''deals'']
        # map (\<lambda>i. Call DealsGetById [i, deal_properties]) ids)"
proof -
  let ?lookup = "Call ContactsAssociationsGetAll [JStr c, JStr ''deals'']"
  from assms(4) have "\<forall>i<length ids.
           w ([?lookup] @ map (\<lambda>i. Call DealsGetById [i, deal_properties]) (take i ids))
             (Call DealsGetById [ids ! i, deal_properties]) = Inr (ds ! i)
           \<and> \<not> nullish (ds ! i)"
    by simp
  from fetch_deals_success [where w = w and acc = "[]", OF assms(3) this]
  have f: "fetch_deals w ids [] [?lookup] =
      (Inr (map normalized ds), ?lookup # map (\<lambda>i. Call DealsGetById [i, deal_properties]) ids)"
    by simp
  note run = list_deals_for_contact_run [where w = w, OF assms(1,2)]
  show ?thesis
  proof (cases "ids = []")
    case True
    with assms(3) run show ?thesis by (simp add: ok_def)
  next
    case False
    with run f show ?thesis by (simp add: ok_def)
  qed
qed

text \<open>
  Claim C8, as the code has it. The record returned by create contact, by create deal
  with association (when the contact id is coerced to a string and the association
  resolves) and, for every deal, by list deals for contact is the normalized pair
  of the external response: \<^verbatim>\<open>id\<close> and \<^verbatim>\<open>properties\<close>, each from the top-level
  field when that is truthy and from the field under \<^verbatim>\<open>body\<close> otherwise. It has
  the canonical shape whenever the response carries a non-empty string id and a
  string-valued properties mapping at top level or, with neither at top level, under
  \<^verbatim>\<open>body\<close>. List contacts and list deals return the items of the external list
  unchanged.
\<close>

theorem returned_records:
  fixes number_text :: "real \<Rightarrow> string" and w :: world
    and req_body r a assoc page :: jsval and contactId s :: string
    and ids ds items :: "jsval list"
  defines "creation \<equiv> Call DealsCreate [JObj [(''properties'', field req_body ''dealProperties'')]]"
    and "association \<equiv>
      Call DealsAssociationsCreate
        [js_or (field r ''id'') (field (field r ''body'') ''id''), JStr ''contacts'',
         JStr s, associationSpec]"
    and "lookup \<equiv> Call ContactsAssociationsGetAll [JStr contactId, JStr ''deals'']"
    and "fetch \<equiv> \<lambda>i. Call DealsGetById [i, deal_properties]"
  shows
    "(top_level_variant r \<or> body_variant r \<longrightarrow> canonical (normalized r))
     \<and> (truthy (field (field req_body ''properties'') ''email'')
          \<and> w [] (Call ContactsCreate [JObj [(''properties'', field req_body ''properties'')]])
              = Inr r
          \<and> \<not> nullish r \<longrightarrow>
          fst (create_contact w req_body) = \<lparr>status = JNum 201, json = normalized r\<rparr>)
     \<and> (truthy (field (field req_body ''dealProperties'') ''dealname'')
          \<and> truthy (field req_body ''contactId'')
          \<and> js_String number_text (field req_body ''contactId'') = Inr s
          \<and> w [] creation = Inr r \<and> \<not> nullish r \<and> w [creation] association = Inr a \<longrightarrow>
          fst (create_deal number_text w req_body) = \<lparr>status = JNum 201, json = normalized r\<rparr>)
     \<and> (w [] lookup = Inr assoc \<and> dealIds_of assoc = Inr ids \<and> length ds = length ids
          \<and> (\<forall>i<length ids.
                 w (lookup # map fetch (take i ids)) (fetch (ids ! i)) = Inr (ds ! i)
                 \<and> \<not> nullish (ds ! i)) \<longrightarrow>
          fst (list_deals_for_contact w contactId) =
            \<lparr>status = JNum 200, json = JObj [(''results'', JArr (map normalized ds))]\<rparr>)
     \<and> (w [] (Call ContactsGetPage (page_args contact_properties)) = Inr page
          \<and> extractListResults page = Inr items \<longrightarrow>
          fst (list_contacts w) = \<lparr>status = JNum 200, json = JObj [(''results'', JArr items)]\<rparr>)
     \<and> (w [] (Call DealsGetPage (page_args deal_properties)) = Inr page
          \<and> extractListResults page = Inr items \<longrightarrow>
          fst (list_deals w) = \<lparr>status = JNum 200, json = JObj [(''results'', JArr items)]\<rparr>)"
proof -
  have "canonical (normalized r)" if "top_level_variant r \<or> body_variant r"
    using that normalized_top_level(2) normalized_body(2) by blast
  moreover have "fst (create_contact w req_body) = \<lparr>status = JNum 201, json = normalized r\<rparr>"
    if "truthy (field (field req_body ''properties'') ''email'')"
      "w [] (Call ContactsCreate [JObj [(''properties'', field req_body ''properties'')]]) = Inr r"
      "\<not> nullish r"
    using create_contact_created [where w = w, OF that] by simp
  moreover have "fst (create_deal number_text w req_body) = \<lparr>status = JNum 201, json = normalized r\<rparr>"
    if "truthy (field (field req_body ''dealProperties'') ''dealname'')"
      "truthy (field req_body ''contactId'')"
      "js_String number_text (field req_body ''contactId'') = Inr s"
      "w [] creation = Inr r" "\<not> nullish r" "w [creation] association = Inr a"
    using create_deal_created
      [where w = w and nt = number_text, OF that(1,2) that(4) [unfolded creation_def] that(5)]
      that(3,6)
    by (simp add: creation_def association_def)
  moreover have "fst (list_deals_for_contact w contactId) =
            \<lparr>status = JNum 200, json = JObj [(''results'', JArr (map normalized ds))]\<rparr>"
    if "w [] lookup = Inr assoc" "dealIds_of assoc = Inr ids" "length ds = length ids"
      "\<forall>i<length ids.
                 w (lookup # map fetch (take i ids)) (fetch (ids ! i)) = Inr (ds ! i)
                 \<and> \<not> nullish (ds ! i)"
    using list_deals_for_contact_fetched
      [where w = w, OF that(1) [unfolded lookup_def] that(2,3) that(4) [unfolded lookup_def fetch_def]]
    by simp
  moreover have "fst (list_contacts w) =
      \<lparr>status = JNum 200, json = JObj [(''results'', JArr items)]\<rparr>"
    if "w [] (Call ContactsGetPage (page_args contact_properties)) = Inr page"
      "extractListResults page = Inr items"
    using list_contacts_run [where w = w, OF that] by simp
  moreover have "fst (list_deals w) =
      \<lparr>status = JNum 200, json = JObj [(''results'', JArr items)]\<rparr>"
    if "w [] (Call DealsGetPage (page_args deal_properties)) = Inr page"
      "extractListResults page = Inr items"
    using list_deals_run [where w = w, OF that] by simp
  ultimately show ?thesis by blast
qed

theorem returned_records_witness:
  "canonical (normalized wrapped_contact)
   \<and> fst (create_contact crm_up
            (JObj [(''properties'', JObj [(''email'', JStr ''ada@example.com'')])])) =
       \<lparr>status = JNum 201,
        json = JObj [(''id'', JStr ''501''),
                     (''properties'', JObj [(''email'', JStr ''ada@example.com'')])]\<rparr>
   \<and> fst (list_contacts crm_wrapped) =
       \<lparr>status = JNum 200, json = JObj [(''results'', JArr [wrapped_contact])]\<rparr>"
proof -
  let ?b = "JObj [(''properties'', JObj [(''email'', JStr ''ada@example.com'')])]"
  have v: "body_variant wrapped_contact"
    by (simp add: body_variant_def top_level_variant_def canonical_def field_def
        wrapped_contact_def)
  have e: "truthy (field (field ?b ''properties'') ''email'')"
    by (simp add: field_def)
  have c: "crm_up [] (Call ContactsCreate [JObj [(''properties'', field ?b ''properties'')]])
      = Inr wrapped_contact"
    by (simp add: field_def wrapped_contact_def)
  have n: "\<not> nullish wrapped_contact"
    by (simp add: wrapped_contact_def)
  have p: "crm_wrapped [] (Call ContactsGetPage (page_args contact_properties)) =
      Inr (JObj [(''results'', JArr [wrapped_contact])])"
    by simp
  have x: "extractListResults (JObj [(''results'', JArr [wrapped_contact])]) = Inr [wrapped_contact]"
    by (simp add: extractListResults_def get_prop_def)
  have norm: "normalized wrapped_contact =
      JObj [(''id'', JStr ''501''),
            (''properties'', JObj [(''email'', JStr ''ada@example.com'')])]"
    by (simp add: normalized_def wrapped_contact_def field_def js_or_def)
  from returned_records [where r = wrapped_contact and w = crm_up and req_body = ?b] v e c n
  have "canonical (normalized wrapped_contact)"
    and "fst (create_contact crm_up ?b) = \<lparr>status = JNum 201, json = normalized wrapped_contact\<rparr>"
    by blast+
  moreover from returned_records
    [where w = crm_wrapped and page = "JObj [(''results'', JArr [wrapped_contact])]"
       and items = "[wrapped_contact]"] p x
  have "fst (list_contacts crm_wrapped) =
       \<lparr>status = JNum 200, json = JObj [(''results'', JArr [wrapped_contact])]\<rparr>"
    by blast
  ultimately show ?thesis by (simp add: norm)
qed

text \<open>
  The claim as stated fails on list contacts: an item that the external client returns
  nested under \<^verbatim>\<open>body\<close> is returned as it is, and it has not the canonical shape.
\<close>

theorem list_contacts_shape_counterexample:
  "body_variant wrapped_contact
   \<and> list_contacts crm_wrapped =
       (\<lparr>status = JNum 200, json = JObj [(''results'', JArr [wrapped_contact])]\<rparr>,
        [Call ContactsGetPage (page_args contact_properties)])
   \<and> \<not> canonical wrapped_contact"
  by (simp add: list_contacts_def act_defs ok_def extractListResults_def get_prop_def
      body_variant_def top_level_variant_def canonical_def field_def wrapped_contact_def)

end
